theory Spec2Isabelle
  imports Main "HOL-Library.Multiset"
begin

section \<open>JavaScript values\<close>

text \<open>
  The prompter of \<^verbatim>\<open>src/shared/ui/pickerPrompter.ts\<close> is generic in the type of the
  results it hands out, and it inspects those results at run time (\<^verbatim>\<open>typeof\<close>,
  \<^verbatim>\<open>JSON.stringify\<close>, \<^verbatim>\<open>===\<close>). Results are therefore modelled as JavaScript values.
  Numbers are the integers (non-integral and non-finite numbers are outside the model),
  strings are lists of 8-bit characters, a symbol is identified by a name, a function by
  a number (what calling it does is given separately, where the code calls it), and an
  object is the list of its own enumerable properties, in the order in which they are
  enumerated. Cyclic objects, getters and \<^verbatim>\<open>toJSON\<close> methods are outside the model.
\<close>

datatype jsval =
    JUndefined
  | JNull
  | JBool bool
  | JNum int
  | JBigInt int
  | JStr string
  | JSymbol string
  | JFun nat
  | JArr "jsval list"
  | JObj "(string \<times> jsval) list"

datatype js_type =
  TUndefined | TObject | TBoolean | TNumber | TBigint | TString | TSymbol | TFunction

fun typeof :: "jsval \<Rightarrow> js_type" where
  "typeof JUndefined = TUndefined"
| "typeof JNull = TObject"
| "typeof (JBool b) = TBoolean"
| "typeof (JNum n) = TNumber"
| "typeof (JBigInt n) = TBigint"
| "typeof (JStr s) = TString"
| "typeof (JSymbol d) = TSymbol"
| "typeof (JFun f) = TFunction"
| "typeof (JArr xs) = TObject"
| "typeof (JObj kvs) = TObject"

text \<open>An exception (or the reason of a rejected promise) is an error object with a message.\<close>

datatype js_error = Error string | TypeError string

fun message :: "js_error \<Rightarrow> string" where
  "message (Error m) = m"
| "message (TypeError m) = m"

text \<open>
  A computation that changes state and may throw: the state it leaves behind is kept in
  both cases, since a \<^verbatim>\<open>catch\<close> or \<^verbatim>\<open>finally\<close> handler goes on from it.
\<close>

datatype 'a completion = Normal 'a | Throws js_error 'a

fun state_of :: "'a completion \<Rightarrow> 'a" where
  "state_of (Normal s) = s"
| "state_of (Throws e s) = s"

fun thrown :: "'a completion \<Rightarrow> js_error option" where
  "thrown (Normal s) = None"
| "thrown (Throws e s) = Some e"

subsection \<open>\<^verbatim>\<open>JSON.stringify\<close>\<close>

function show_nat :: "nat \<Rightarrow> string" where
  "show_nat n =
     (if n < 10 then [''0123456789'' ! n]
      else show_nat (n div 10) @ [''0123456789'' ! (n mod 10)])"
  by pat_completeness auto
termination
  by (relation "measure id") auto

definition show_int :: "int \<Rightarrow> string" where
  "show_int i = (if i < 0 then CHR ''-'' # show_nat (nat (- i)) else show_nat (nat i))"

definition hex_digit :: "nat \<Rightarrow> char" where
  "hex_digit n = ''0123456789abcdef'' ! n"

text \<open>The escapes of \<^verbatim>\<open>QuoteJSONString\<close>; \<open>CHR 0x22\<close> is the double quote, \<open>CHR 0x5C\<close> the backslash.\<close>

definition json_escape :: "char \<Rightarrow> string" where
  "json_escape c =
     (if c = CHR 0x08 then [CHR 0x5C, CHR ''b'']
      else if c = CHR 0x09 then [CHR 0x5C, CHR ''t'']
      else if c = CHR 0x0A then [CHR 0x5C, CHR ''n'']
      else if c = CHR 0x0C then [CHR 0x5C, CHR ''f'']
      else if c = CHR 0x0D then [CHR 0x5C, CHR ''r'']
      else if c = CHR 0x22 then [CHR 0x5C, CHR 0x22]
      else if c = CHR 0x5C then [CHR 0x5C, CHR 0x5C]
      else if (of_char c :: nat) < 0x20
        then [CHR 0x5C, CHR ''u'', CHR ''0'', CHR ''0'',
              hex_digit (of_char c div 16), hex_digit (of_char c mod 16)]
      else [c])"

definition QuoteJSONString :: "string \<Rightarrow> string" where
  "QuoteJSONString s = CHR 0x22 # concat (map json_escape s) @ [CHR 0x22]"

fun join_comma :: "string list \<Rightarrow> string" where
  "join_comma [] = []"
| "join_comma [x] = x"
| "join_comma (x # y # ys) = x @ '','' @ join_comma (y # ys)"

text \<open>The results of a sequence of steps, or the first exception among them.\<close>

fun first_throw :: "('e + 'a) list \<Rightarrow> 'e + 'a list" where
  "first_throw [] = Inr []"
| "first_throw (Inl e # rs) = Inl e"
| "first_throw (Inr x # rs) =
     (case first_throw rs of Inl e \<Rightarrow> Inl e | Inr xs \<Rightarrow> Inr (x # xs))"

text \<open>
  \<^verbatim>\<open>JSON.stringify(v)\<close> with one argument: \<open>Inr None\<close> is the result \<^verbatim>\<open>undefined\<close>
  (for \<^verbatim>\<open>undefined\<close>, a function or a symbol), \<open>Inl\<close> the \<^verbatim>\<open>TypeError\<close> thrown at a BigInt.
  In an array such a value prints as \<^verbatim>\<open>null\<close>; in an object its property is left out.
\<close>

fun JSON_stringify :: "jsval \<Rightarrow> js_error + string option" where
  "JSON_stringify JUndefined = Inr None"
| "JSON_stringify (JFun f) = Inr None"
| "JSON_stringify (JSymbol d) = Inr None"
| "JSON_stringify JNull = Inr (Some ''null'')"
| "JSON_stringify (JBool b) = Inr (Some (if b then ''true'' else ''false''))"
| "JSON_stringify (JNum n) = Inr (Some (show_int n))"
| "JSON_stringify (JBigInt n) = Inl (TypeError ''Do not know how to serialize a BigInt'')"
| "JSON_stringify (JStr s) = Inr (Some (QuoteJSONString s))"
| "JSON_stringify (JArr xs) =
     (case first_throw (map JSON_stringify xs) of
        Inl e \<Rightarrow> Inl e
      | Inr parts \<Rightarrow>
          Inr (Some (''['' @ join_comma (map (\<lambda>p. case p of None \<Rightarrow> ''null'' | Some t \<Rightarrow> t) parts)
                     @ '']'')))"
| "JSON_stringify (JObj kvs) =
     (case first_throw (map (\<lambda>(k, v). case JSON_stringify v of
                                 Inl e \<Rightarrow> Inl e | Inr p \<Rightarrow> Inr (k, p)) kvs) of
        Inl e \<Rightarrow> Inl e
      | Inr parts \<Rightarrow>
          Inr (Some (''{'' @ join_comma (concat (map (\<lambda>(k, p). case p of None \<Rightarrow> []
                       | Some t \<Rightarrow> [QuoteJSONString k @ '':'' @ t]) parts)) @ ''}'')))"

text \<open>
  Reading a property \<^verbatim>\<open>v.k\<close>: a \<^verbatim>\<open>TypeError\<close> on \<^verbatim>\<open>undefined\<close> and \<^verbatim>\<open>null\<close>, the
  property's value on an object that has it, \<^verbatim>\<open>undefined\<close> otherwise. The code reads only
  \<^verbatim>\<open>label\<close>, \<^verbatim>\<open>data\<close> and \<^verbatim>\<open>description\<close> this way; \<^verbatim>\<open>description\<close> is the one of them
  that a prototype defines, on symbols.
\<close>

fun js_get :: "jsval \<Rightarrow> string \<Rightarrow> js_error + jsval" where
  "js_get JUndefined k = Inl (TypeError ''Cannot read properties of undefined'')"
| "js_get JNull k = Inl (TypeError ''Cannot read properties of null'')"
| "js_get (JObj kvs) k = Inr (case map_of kvs k of None \<Rightarrow> JUndefined | Some v \<Rightarrow> v)"
| "js_get (JSymbol d) k = Inr (if k = ''description'' then JStr d else JUndefined)"
| "js_get v k = Inr JUndefined"

section \<open>Option records and the picker\<close>

text \<open>
  \<^verbatim>\<open>DataQuickPickItem\<close>: the fields of \<^verbatim>\<open>vscode.QuickPickItem\<close> that the code reads or
  writes, and those of \<^verbatim>\<open>BaseItem\<close>. An optional field that is absent is \<open>None\<close>; an
  absent \<^verbatim>\<open>data\<close> reads as \<^verbatim>\<open>undefined\<close>. A thunk is a \<open>JFun\<close>. The callback \<^verbatim>\<open>onClick\<close>
  is named by a number; calling it is recorded in a log and is assumed to return.
\<close>

record item =
  label :: string
  description :: "string option"
  detail :: "string option"
  alwaysShow :: "bool option"
  data :: jsval
  invalidSelection :: "bool option"
  onClick :: "nat option"
  skipEstimate :: "bool option"
  recentlyUsed :: "bool option"

definition truthy :: "bool option \<Rightarrow> bool" where
  "truthy b = (b = Some True)"

text \<open>
  What the file imports and this model takes as given: the text \<^verbatim>\<open>recentlyUsed\<close> of
  \<^verbatim>\<open>../localizedText\<close> and the control signals of \<^verbatim>\<open>../wizards/wizard\<close>.
\<close>

record env =
  recentlyUsed_text :: string
  WIZARD_BACK :: jsval
  WIZARD_EXIT :: jsval

text \<open>\<^verbatim>\<open>localize(key, text)\<close> is taken to return the text given in the source.\<close>

definition DEFAULT_NO_ITEMS_ITEM :: "env \<Rightarrow> item" where
  "DEFAULT_NO_ITEMS_ITEM E =
     \<lparr> label = ''[No items found]'', description = None,
       detail = Some ''Click here to go back'', alwaysShow = Some True,
       data = WIZARD_BACK E, invalidSelection = None, onClick = None,
       skipEstimate = None, recentlyUsed = None \<rparr>"

text \<open>The object literal that \<^verbatim>\<open>DEFAULT_ERROR_ITEM\<close> is initialised with.\<close>

definition DEFAULT_ERROR_ITEM_literal :: "env \<Rightarrow> item" where
  "DEFAULT_ERROR_ITEM_literal E =
     \<lparr> label = ''[Error loading items]'', description = None,
       detail = None, alwaysShow = Some True,
       data = WIZARD_BACK E, invalidSelection = None, onClick = None,
       skipEstimate = None, recentlyUsed = None \<rparr>"

definition CUSTOM_USER_INPUT :: jsval where
  "CUSTOM_USER_INPUT = JSymbol ''CUSTOM_USER_INPUT''"

text \<open>
  The option \<^verbatim>\<open>noItemsFoundItem\<close> is a string or an item. The option \<^verbatim>\<open>errorItem\<close> is a
  string, an item, a function of the error, or (\<open>ErrDefault\<close>) the module's object
  \<^verbatim>\<open>DEFAULT_ERROR_ITEM\<close> itself, which \<^verbatim>\<open>DEFAULT_QUICKPICK_OPTIONS\<close> refers to.
\<close>

datatype item_option = Label string | Item item

datatype error_option =
  ErrLabel string | ErrItem item | ErrDefault | ErrFun "js_error \<Rightarrow> item_option"

record options =
  compare :: "(item \<Rightarrow> item \<Rightarrow> int) option"
  noItemsFoundItem :: "item_option option"
  errorItem :: "error_option option"

definition DEFAULT_QUICKPICK_OPTIONS :: "env \<Rightarrow> options" where
  "DEFAULT_QUICKPICK_OPTIONS E =
     \<lparr> compare = None, noItemsFoundItem = Some (Item (DEFAULT_NO_ITEMS_ITEM E)),
       errorItem = Some ErrDefault \<rparr>"

text \<open>
  The picker is the plain object the code reads and assigns: what the rendering widget
  does with an assigned value is not part of this code. An entry of \<open>activeItems\<close> can be
  \<^verbatim>\<open>undefined\<close> (\<open>None\<close>), see \<open>selectItems\<close>.
\<close>

record picker =
  items :: "item list"
  activeItems :: "item option list"
  selectedItems :: "item list"
  value_text :: string

text \<open>
  The state of a \<^verbatim>\<open>QuickPickPrompter\<close>. \<open>recentItem'\<close> and \<open>lastPicked'\<close> are the fields
  \<^verbatim>\<open>_recentItem\<close> and \<^verbatim>\<open>_lastPicked\<close>. \<open>DEFAULT_ERROR_ITEM\<close> is the module's object of that
  name: \<open>addErrorItem\<close> can assign to its \<^verbatim>\<open>detail\<close>, so its present value is state.
\<close>

text \<open>
  Modelled from the spec: the field \<open>pendingUpdates\<close> is inherited from the base class
  \<^verbatim>\<open>QuickInputPrompter\<close>, whose file \<^verbatim>\<open>quickInput.ts\<close> is not among the sources. It is the
  pending update count of the spec: the number of updates in flight.
\<close>

record prompter =
  quickPick :: picker
  options :: options
  isShowingPlaceholder :: bool
  recentItem' :: jsval
  lastPicked' :: "item option"
  pendingUpdates :: nat
  DEFAULT_ERROR_ITEM :: item

definition set_items :: "item list \<Rightarrow> 'a prompter_scheme \<Rightarrow> 'a prompter_scheme" where
  "set_items xs s = s\<lparr> quickPick := (quickPick s)\<lparr> items := xs \<rparr> \<rparr>"

definition set_activeItems :: "item option list \<Rightarrow> 'a prompter_scheme \<Rightarrow> 'a prompter_scheme" where
  "set_activeItems xs s = s\<lparr> quickPick := (quickPick s)\<lparr> activeItems := xs \<rparr> \<rparr>"

section \<open>The functions of the module\<close>

text \<open>\<^verbatim>\<open>resolveItemOption\<close>: a string replaces the label of a copy of the base.\<close>

fun resolveItemOption :: "item \<Rightarrow> item_option \<Rightarrow> item" where
  "resolveItemOption base (Label l) = base\<lparr> label := l \<rparr>"
| "resolveItemOption base (Item i) = i"

definition hashItem :: "item \<Rightarrow> string" where
  "hashItem i =
     label i @ '':'' @ (case description i of None \<Rightarrow> '''' | Some d \<Rightarrow> d) @ '':'' @
     (case detail i of None \<Rightarrow> '''' | Some d \<Rightarrow> d)"

definition applyDescriptionSuffix :: "string \<Rightarrow> item \<Rightarrow> item" where
  "applyDescriptionSuffix suffix i =
     (if \<not> truthy (recentlyUsed i) then i
      else let d = (case description i of None \<Rightarrow> '''' | Some d \<Rightarrow> d)
           in i\<lparr> description := Some (d @ (if d \<noteq> '''' then '' ('' @ suffix @ '')'' else suffix)) \<rparr>)"

subsection \<open>\<^verbatim>\<open>Array.prototype.sort\<close>\<close>

text \<open>
  The sort is the runtime's. It is modelled as the stable insertion sort: each element in
  turn moves left past the elements that the comparator puts after it
  (\<open>cmp y x > 0\<close>). \<open>js_insert\<close> works on the reversed sorted prefix. Where a comparator
  is not a consistent order the language leaves the resulting order to the engine; the
  comparator of \<open>appendItems\<close> is not one when two records are flagged \<^verbatim>\<open>recentlyUsed\<close>,
  and the order among such records is then that of this model.
\<close>

fun js_insert :: "('a \<Rightarrow> 'a \<Rightarrow> int) \<Rightarrow> 'a \<Rightarrow> 'a list \<Rightarrow> 'a list" where
  "js_insert cmp x [] = [x]"
| "js_insert cmp x (y # ys) = (if cmp y x > 0 then y # js_insert cmp x ys else x # y # ys)"

definition js_sort :: "('a \<Rightarrow> 'a \<Rightarrow> int) \<Rightarrow> 'a list \<Rightarrow> 'a list" where
  "js_sort cmp xs = rev (foldl (\<lambda>acc x. js_insert cmp x acc) [] xs)"

subsection \<open>\<^verbatim>\<open>QuickPickPrompter\<close>\<close>

definition clearItems :: "'a prompter_scheme \<Rightarrow> 'a prompter_scheme" where
  "clearItems s = (set_items [] s)\<lparr> isShowingPlaceholder := False \<rparr>"

text \<open>\<^verbatim>\<open>items.map(item => item.label)\<close> throws at an \<^verbatim>\<open>undefined\<close> entry.\<close>

fun labels_of :: "item option list \<Rightarrow> js_error + string list" where
  "labels_of [] = Inr []"
| "labels_of (None # rest) = Inl (TypeError ''Cannot read properties of undefined'')"
| "labels_of (Some i # rest) =
     (case labels_of rest of Inl e \<Rightarrow> Inl e | Inr ls \<Rightarrow> Inr (label i # ls))"

text \<open>\<^verbatim>\<open>xs[0]\<close>: \<^verbatim>\<open>undefined\<close> on the empty array.\<close>

fun first_entry :: "'a list \<Rightarrow> 'a option" where
  "first_entry [] = None"
| "first_entry (x # xs) = Some x"

definition selectItems :: "'a prompter_scheme \<Rightarrow> item option list \<Rightarrow> 'a prompter_scheme completion" where
  "selectItems s args =
     (case labels_of args of
        Inl e \<Rightarrow> Throws e s
      | Inr selected \<Rightarrow>
          let act = filter (\<lambda>i. label i \<in> set selected) (items (quickPick s))
          in Normal (set_activeItems
                       (if act = [] then [first_entry (items (quickPick s))] else map Some act) s))"

definition sort_order :: "options \<Rightarrow> item \<Rightarrow> item \<Rightarrow> int" where
  "sort_order opts a b =
     (if truthy (recentlyUsed a) then - 1
      else if truthy (recentlyUsed b) then 1
      else (case compare opts of None \<Rightarrow> 0 | Some f \<Rightarrow> f a b))"

definition appendItems :: "env \<Rightarrow> 'a prompter_scheme \<Rightarrow> item list \<Rightarrow> 'a prompter_scheme completion" where
  "appendItems E s new =
     (let recent = activeItems (quickPick s);
          s1 = set_items (js_sort (sort_order (options s))
                 (items (quickPick s) @ map (applyDescriptionSuffix (recentlyUsed_text E)) new)) s
      in selectItems s1 recent)"

text \<open>\<^verbatim>\<open>checkEmpty\<close>; its caller evaluates the default of the parameter.\<close>

definition checkEmpty :: "env \<Rightarrow> 'a prompter_scheme \<Rightarrow> bool \<Rightarrow> 'a prompter_scheme completion" where
  "checkEmpty E s pendingUpdate =
     (if items (quickPick s) = [] \<and> \<not> pendingUpdate
      then selectItems
             (set_items (case noItemsFoundItem (options s) of
                           Some opt \<Rightarrow> [resolveItemOption (DEFAULT_NO_ITEMS_ITEM E) opt]
                         | None \<Rightarrow> [])
                (s\<lparr> isShowingPlaceholder := True \<rparr>)) []
      else Normal s)"

text \<open>
  \<^verbatim>\<open>addErrorItem\<close>. \<open>error_option_falsy\<close> is \<^verbatim>\<open>!errorOption\<close> on a configured option: the
  empty string. \<^verbatim>\<open>resolvedItem.detail ??= error.message\<close> assigns to the resolved object.
  For an item given in the options, and for the module's \<^verbatim>\<open>DEFAULT_ERROR_ITEM\<close>, that
  object is the configured one, which keeps the assignment; a string option resolves to a
  fresh copy of the base, and what a function option returns is taken to be fresh.
\<close>

fun error_option_falsy :: "error_option \<Rightarrow> bool" where
  "error_option_falsy (ErrLabel l) = (l = '''')"
| "error_option_falsy opt = False"

fun resolveErrorOption :: "item \<Rightarrow> error_option \<Rightarrow> js_error \<Rightarrow> item" where
  "resolveErrorOption base (ErrLabel l) e = resolveItemOption base (Label l)"
| "resolveErrorOption base (ErrItem i) e = resolveItemOption base (Item i)"
| "resolveErrorOption base ErrDefault e = resolveItemOption base (Item base)"
| "resolveErrorOption base (ErrFun f) e = resolveItemOption base (f e)"

definition default_detail :: "js_error \<Rightarrow> item \<Rightarrow> item" where
  "default_detail e i = (case detail i of None \<Rightarrow> i\<lparr> detail := Some (message e) \<rparr> | Some d \<Rightarrow> i)"

fun assign_resolved :: "error_option \<Rightarrow> item \<Rightarrow> 'a prompter_scheme \<Rightarrow> 'a prompter_scheme" where
  "assign_resolved (ErrItem i) r s = s\<lparr> options := (options s)\<lparr> errorItem := Some (ErrItem r) \<rparr> \<rparr>"
| "assign_resolved ErrDefault r s = s\<lparr> DEFAULT_ERROR_ITEM := r \<rparr>"
| "assign_resolved opt r s = s"

definition addErrorItem :: "env \<Rightarrow> 'a prompter_scheme \<Rightarrow> js_error \<Rightarrow> 'a prompter_scheme completion" where
  "addErrorItem E s e =
     (case errorItem (options s) of
        None \<Rightarrow> Normal s
      | Some errorOption \<Rightarrow>
          if error_option_falsy errorOption then Normal s
          else let resolvedItem =
                     default_detail e (resolveErrorOption (DEFAULT_ERROR_ITEM s) errorOption e)
               in appendItems E
                    (assign_resolved errorOption resolvedItem (s\<lparr> isShowingPlaceholder := True \<rparr>))
                    [resolvedItem])"

text \<open>
  \<^verbatim>\<open>loadFromAsyncIterable\<close>. The iterator is given by what its calls of \<^verbatim>\<open>next()\<close>
  settle to, each with whether the picker was hidden while the call was awaited; a script
  that runs out stands for an iterator that reports \<^verbatim>\<open>done\<close> with no value.
\<close>

datatype yielded = One item | Many "item list"

datatype iter_result = IterResult "yielded option" bool | IterThrows js_error

fun yielded_items :: "yielded \<Rightarrow> item list" where
  "yielded_items (One i) = [i]"
| "yielded_items (Many xs) = xs"

fun loadFromAsyncIterable ::
  "env \<Rightarrow> 'a prompter_scheme \<Rightarrow> (bool \<times> iter_result) list \<Rightarrow> 'a prompter_scheme completion" where
  "loadFromAsyncIterable E s [] = Normal s"
| "loadFromAsyncIterable E s ((hidden, IterThrows e) # rest) = Throws e s"
| "loadFromAsyncIterable E s ((hidden, IterResult v done) # rest) =
     (case (case v of None \<Rightarrow> Normal s | Some y \<Rightarrow> appendItems E s (yielded_items y)) of
        Throws e t \<Rightarrow> Throws e t
      | Normal t \<Rightarrow> if done \<or> hidden then Normal t else loadFromAsyncIterable E t rest)"

text \<open>
  \<^verbatim>\<open>loadItems\<close>. What is loaded (\<^verbatim>\<open>ItemLoadTypes\<close>) is an array, a promise (given by what
  it settles to) or an iterator. \<open>on_catch\<close> and \<open>on_finally\<close> are \<^verbatim>\<open>.catch(handler)\<close> and
  \<^verbatim>\<open>.finally(handler)\<close>. The logger is a side channel and is left out. A load runs from
  its call to its end with no other event in between: the source states that callers
  never load in parallel.
\<close>

datatype ItemLoadTypes =
  Array "item list" | Deferred "js_error + item list" | Stream "(bool \<times> iter_result) list"

fun on_catch :: "('s \<Rightarrow> js_error \<Rightarrow> 's completion) \<Rightarrow> 's completion \<Rightarrow> 's completion" where
  "on_catch h (Normal s) = Normal s"
| "on_catch h (Throws e s) = h s e"

fun on_finally :: "('s \<Rightarrow> 's completion) \<Rightarrow> 's completion \<Rightarrow> 's completion" where
  "on_finally h (Normal s) = h s"
| "on_finally h (Throws e s) = (case h s of Normal t \<Rightarrow> Throws e t | Throws e' t \<Rightarrow> Throws e' t)"

fun map_completion :: "('s \<Rightarrow> 's) \<Rightarrow> 's completion \<Rightarrow> 's completion" where
  "map_completion f (Normal s) = Normal (f s)"
| "map_completion f (Throws e s) = Throws e (f s)"

text \<open>
  Modelled from the spec: \<^verbatim>\<open>addBusyUpdate\<close> is a method of \<^verbatim>\<open>QuickInputPrompter\<close>, which is not
  among the sources. It counts the update in \<open>pendingUpdates\<close> from the call until the
  update has settled. \<open>loadItems\<close> calls it before the promise settles, so the handlers
  of the promise run with the update counted.
\<close>

definition addBusyUpdate_begin :: "'a prompter_scheme \<Rightarrow> 'a prompter_scheme" where
  "addBusyUpdate_begin s = s\<lparr> pendingUpdates := pendingUpdates s + 1 \<rparr>"

definition addBusyUpdate_end :: "'a prompter_scheme \<Rightarrow> 'a prompter_scheme" where
  "addBusyUpdate_end s = s\<lparr> pendingUpdates := pendingUpdates s - 1 \<rparr>"

definition handleError :: "env \<Rightarrow> 'a prompter_scheme \<Rightarrow> js_error \<Rightarrow> 'a prompter_scheme completion" where
  "handleError E s err = addErrorItem E s err"

definition loadItems :: "env \<Rightarrow> 'a prompter_scheme \<Rightarrow> ItemLoadTypes \<Rightarrow> 'a prompter_scheme completion" where
  "loadItems E s loaded =
     (let s0 = (if isShowingPlaceholder s then clearItems s else s)
      in case loaded of
           Array xs \<Rightarrow>
             (case appendItems E s0 xs of
                Throws e t \<Rightarrow> Throws e t
              | Normal t \<Rightarrow> checkEmpty E t (pendingUpdates t > 0))
         | Deferred p \<Rightarrow>
             (let s1 = addBusyUpdate_begin s0;
                  loader = (case p of Inl e \<Rightarrow> Throws e s1 | Inr xs \<Rightarrow> appendItems E s1 xs);
                  withHandlers =
                    on_finally (\<lambda>t. checkEmpty E t (pendingUpdates t > 1))
                      (on_catch (handleError E) loader)
              in map_completion addBusyUpdate_end withHandlers)
         | Stream script \<Rightarrow>
             (let s1 = addBusyUpdate_begin s0;
                  loader = loadFromAsyncIterable E s1 script;
                  withHandlers =
                    on_finally (\<lambda>t. checkEmpty E t (pendingUpdates t > 1))
                      (on_catch (handleError E) loader)
              in map_completion addBusyUpdate_end withHandlers))"

text \<open>
  The constructor: a new picker, the options as merged by the caller, no placeholder
  showing, no update in flight. The module's \<^verbatim>\<open>DEFAULT_ERROR_ITEM\<close> is one object for all
  prompters: a new prompter finds it as earlier loads have left it, so its present value
  \<open>module_item\<close> is given.
\<close>

definition new_QuickPickPrompter :: "item \<Rightarrow> options \<Rightarrow> prompter" where
  "new_QuickPickPrompter module_item opts =
     \<lparr> quickPick = \<lparr> items = [], activeItems = [], selectedItems = [], value_text = '''' \<rparr>,
       options = opts, isShowingPlaceholder = False, recentItem' = JUndefined,
       lastPicked' = None, pendingUpdates = 0,
       DEFAULT_ERROR_ITEM = module_item \<rparr>"

subsection \<open>\<^verbatim>\<open>acceptItems\<close>\<close>

text \<open>
  What an acceptance can change outside the picker: the log of the \<^verbatim>\<open>onClick\<close> callbacks
  that were called, and the promise behind \<^verbatim>\<open>resolve\<close>, which is pending (\<open>None\<close>) or
  holds the items it was resolved with. Resolving a promise that is no longer pending
  changes nothing.
\<close>

record accepting =
  clicked :: "nat list"
  resolved :: "item list option"

definition resolve :: "item list \<Rightarrow> accepting \<Rightarrow> accepting" where
  "resolve xs w = (case resolved w of None \<Rightarrow> w\<lparr> resolved := Some xs \<rparr> | Some ys \<Rightarrow> w)"

definition acceptItems :: "'a picker_scheme \<Rightarrow> accepting \<Rightarrow> accepting" where
  "acceptItems p w =
     (if selectedItems p = [] then w
      else let w1 = w\<lparr> clicked := clicked w @ List.map_filter onClick (selectedItems p) \<rparr>
           in if list_ex (\<lambda>i. truthy (invalidSelection i)) (selectedItems p) then w1
              else resolve (selectedItems p) w1)"

text \<open>
  \<^verbatim>\<open>castDatumToItems\<close>, and the handler of \<^verbatim>\<open>onDidHide\<close> that \<^verbatim>\<open>promptUser\<close> installs next
  to \<open>acceptItems\<close>.
\<close>

definition castDatumToItems :: "jsval list \<Rightarrow> item list" where
  "castDatumToItems datum =
     map (\<lambda>d. \<lparr> label = '''', description = None, detail = None, alwaysShow = None, data = d,
                invalidSelection = None, onClick = None, skipEstimate = None,
                recentlyUsed = None \<rparr>) datum"

definition onDidHide :: "env \<Rightarrow> accepting \<Rightarrow> accepting" where
  "onDidHide E w = resolve (castDatumToItems [WIZARD_EXIT E]) w"

subsection \<open>Recency matching\<close>

text \<open>\<^verbatim>\<open>isDataQuickPickItem\<close>; the conjunction is evaluated left to right.\<close>

fun has_property :: "jsval \<Rightarrow> string \<Rightarrow> bool" where
  "has_property (JObj kvs) k = (map_of kvs k \<noteq> None)"
| "has_property v k = False"

definition isDataQuickPickItem :: "jsval \<Rightarrow> js_error + bool" where
  "isDataQuickPickItem obj =
     (if typeof obj \<noteq> TObject then Inr False
      else case js_get obj ''label'' of
             Inl e \<Rightarrow> Inl e
           | Inr l \<Rightarrow> if typeof l \<noteq> TString then Inr False else Inr (has_property obj ''data''))"

text \<open>\<^verbatim>\<open>Array.prototype.find\<close> with a callback that may throw.\<close>

fun find_throw :: "('a \<Rightarrow> js_error + bool) \<Rightarrow> 'a list \<Rightarrow> js_error + 'a option" where
  "find_throw f [] = Inr None"
| "find_throw f (x # xs) =
     (case f x of Inl e \<Rightarrow> Inl e | Inr b \<Rightarrow> if b then Inr (Some x) else find_throw f xs)"

definition recoverItemFromData :: "jsval \<Rightarrow> item list \<Rightarrow> js_error + item option" where
  "recoverItemFromData d xs =
     (case JSON_stringify d of
        Inl e \<Rightarrow> Inl e
      | Inr stringified \<Rightarrow>
          find_throw (\<lambda>i. if typeof (data i) = TObject
                          then (case JSON_stringify (data i) of
                                  Inl e \<Rightarrow> Inl e | Inr t \<Rightarrow> Inr (stringified = t))
                          else Inr (if typeof (data i) = TFunction then False else d = data i)) xs)"

definition isRecentItem :: "'a prompter_scheme \<Rightarrow> item \<Rightarrow> js_error + bool" where
  "isRecentItem s i =
     (if recentItem' s = JUndefined then Inr False
      else case isDataQuickPickItem (recentItem' s) of
             Inl e \<Rightarrow> Inl e
           | Inr False \<Rightarrow>
               (case recoverItemFromData (recentItem' s) (items (quickPick s)) of
                  Inl e \<Rightarrow> Inl e
                | Inr None \<Rightarrow> Inr False
                | Inr (Some recovered) \<Rightarrow> Inr (label i = label recovered))
           | Inr True \<Rightarrow>
               (case js_get (recentItem' s) ''label'' of
                  Inl e \<Rightarrow> Inl e
                | Inr l \<Rightarrow> Inr (JStr (label i) = l)))"

definition matchRecentItem :: "'a prompter_scheme \<Rightarrow> 'a prompter_scheme completion" where
  "matchRecentItem s =
     (case find_throw (isRecentItem s) (items (quickPick s)) of
        Inl e \<Rightarrow> Throws e s
      | Inr (Some match) \<Rightarrow>
          map_completion (\<lambda>t. t\<lparr> recentItem' := JUndefined \<rparr>) (selectItems s [Some match])
      | Inr None \<Rightarrow>
          if activeItems (quickPick s) = [] then selectItems s [] else Normal s)"

text \<open>The setter \<^verbatim>\<open>recentItem\<close> of \<^verbatim>\<open>QuickPickPrompter\<close>.\<close>

definition set_recentItem :: "'a prompter_scheme \<Rightarrow> jsval \<Rightarrow> 'a prompter_scheme completion" where
  "set_recentItem s response = matchRecentItem (s\<lparr> recentItem' := response \<rparr>)"

subsection \<open>The step estimator\<close>

text \<open>
  The closure \<^verbatim>\<open>estimate\<close> of \<^verbatim>\<open>applyStepEstimator\<close>, run to completion on one record.
  Its state is the cache \<^verbatim>\<open>estimates\<close> and, to tell whether a thunk was called, the list of
  the thunks called so far. \<open>call f\<close> is what the promise returned by thunk \<open>f\<close> settles
  to. \<open>transformed\<close> is \<^verbatim>\<open>transform?.(data) ?? data\<close>. The estimator and the transform are
  assumed to return.
\<close>

record estimating =
  estimates :: "string \<Rightarrow> int option"
  invoked :: "nat list"

definition transformed :: "(jsval \<Rightarrow> jsval) option \<Rightarrow> jsval \<Rightarrow> jsval" where
  "transformed tr d =
     (case tr of
        None \<Rightarrow> d
      | Some f \<Rightarrow> if f d = JUndefined \<or> f d = JNull then d else f d)"

definition estimate ::
  "(nat \<Rightarrow> js_error + jsval) \<Rightarrow> (jsval \<Rightarrow> int) \<Rightarrow> (jsval \<Rightarrow> jsval) option \<Rightarrow>
   item \<Rightarrow> estimating \<Rightarrow> (js_error + int) \<times> estimating" where
  "estimate call estimator tr i st =
     (if truthy (skipEstimate i) \<or> truthy (invalidSelection i) then (Inr 0, st)
      else let hash = hashItem i
           in case estimates st hash of
                Some n \<Rightarrow> (Inr n, st)
              | None \<Rightarrow>
                  (case data i of
                     JFun f \<Rightarrow>
                       if skipEstimate i \<noteq> Some False
                       then (Inr 0, st\<lparr> estimates := (estimates st)(hash \<mapsto> 0) \<rparr>)
                       else (case call f of
                               Inl e \<Rightarrow> (Inl e, st\<lparr> invoked := invoked st @ [f] \<rparr>)
                             | Inr d \<Rightarrow>
                                 (Inr (estimator (transformed tr d)),
                                  st\<lparr> invoked := invoked st @ [f],
                                      estimates := (estimates st)
                                        (hash \<mapsto> estimator (transformed tr d)) \<rparr>))
                   | d \<Rightarrow>
                       (Inr (estimator (transformed tr d)),
                        st\<lparr> estimates := (estimates st)
                              (hash \<mapsto> estimator (transformed tr d)) \<rparr>)))"

subsection \<open>\<^verbatim>\<open>FilterBoxQuickPickPrompter\<close>\<close>

text \<open>
  \<^verbatim>\<open>FilterBoxInput\<close>. A validator returns a string or \<^verbatim>\<open>undefined\<close> at once (\<open>Now\<close>), or a
  promise that will be fulfilled with one (\<open>Later\<close>).
\<close>

datatype validation = Now "string option" | Later "string option"

record FilterBoxInput =
  input_label :: string
  transform :: "string \<Rightarrow> jsval"
  inverse_fn :: "(jsval \<Rightarrow> string) option"
  validator :: "(string \<Rightarrow> validation) option"

text \<open>
  A promise returned by the validator: the value it is fulfilled with, whether that has
  happened, and the callbacks attached with \<^verbatim>\<open>then\<close> that wait for it. Each callback is
  the same closure but for the list \<^verbatim>\<open>items\<close> it captured, so that list stands for it.
  The promise is taken to be fulfilled, not rejected.
\<close>

record promise =
  fulfilment :: "string option"
  settled :: bool
  reactions :: "item list list"

text \<open>
  The state of a \<^verbatim>\<open>FilterBoxQuickPickPrompter\<close>: that of the prompter, the settings, and the
  variables of \<^verbatim>\<open>addFilterBoxInput\<close> that its closures share: \<^verbatim>\<open>timer\<close> (the timeout that is
  set, with the promise \<^verbatim>\<open>validate\<close> and the list \<^verbatim>\<open>items\<close> its callback captured),
  \<^verbatim>\<open>pendingValidation\<close> (a promise, by its index in \<open>promises\<close>) and \<^verbatim>\<open>pendingValue\<close>.
\<close>

record filterbox = prompter +
  settings :: FilterBoxInput
  timer :: "(nat \<times> item list) option"
  pendingValidation :: "nat option"
  pendingValue :: "string option"
  promises :: "promise list"

definition createItem :: "filterbox \<Rightarrow> string option \<Rightarrow> bool \<Rightarrow> item" where
  "createItem s detail_arg invalid =
     \<lparr> label = input_label (settings s),
       description = Some (value_text (quickPick s)),
       detail = Some (case detail_arg of None \<Rightarrow> '''' | Some d \<Rightarrow> d),
       alwaysShow = Some True, data = CUSTOM_USER_INPUT,
       invalidSelection = Some invalid, onClick = None,
       skipEstimate = None, recentlyUsed = None \<rparr>"

text \<open>\<^verbatim>\<open>!!v\<close> for a string or \<^verbatim>\<open>undefined\<close>.\<close>

definition nonempty :: "string option \<Rightarrow> bool" where
  "nonempty v = (v \<noteq> None \<and> v \<noteq> Some '''')"

text \<open>
  The branch of \<^verbatim>\<open>update\<close> for a promise \<open>p\<close>: remember it, keep the pending value if
  there is one, set the timeout and show the interim record.
\<close>

definition await_validation :: "string \<Rightarrow> nat \<Rightarrow> item list \<Rightarrow> filterbox \<Rightarrow> filterbox" where
  "await_validation v p its s =
     set_items (createItem s (Some ''Checking...'') True # its)
       (s\<lparr> pendingValidation := Some p,
           pendingValue := (case pendingValue s of None \<Rightarrow> Some v | Some w \<Rightarrow> Some w),
           timer := Some (p, its) \<rparr>)"

definition update :: "filterbox \<Rightarrow> string \<Rightarrow> filterbox" where
  "update s v =
     (let its = filter (\<lambda>i. data i \<noteq> CUSTOM_USER_INPUT) (items (quickPick s));
          s1 = s\<lparr> timer := None \<rparr>
      in if v \<noteq> ''''
         then (case pendingValidation s1 of
                 Some p \<Rightarrow> await_validation v p its s1
               | None \<Rightarrow>
                   (case validator (settings s1) of
                      None \<Rightarrow> set_items (createItem s1 None False # its) s1
                    | Some f \<Rightarrow>
                        (case f v of
                           Now r \<Rightarrow> set_items (createItem s1 r (nonempty r) # its) s1
                         | Later r \<Rightarrow>
                             await_validation v (length (promises s1)) its
                               (s1\<lparr> promises := promises s1 @
                                     [\<lparr> fulfilment = r, settled = False, reactions = [] \<rparr>] \<rparr>))))
         else set_items its s1)"

text \<open>The callback given to \<^verbatim>\<open>validate.then\<close>, called with the promise's value.\<close>

definition validated :: "filterbox \<Rightarrow> string option \<Rightarrow> item list \<Rightarrow> filterbox" where
  "validated s r its =
     (let validatedValue = pendingValue s;
          s1 = s\<lparr> pendingValidation := None, pendingValue := None \<rparr>
      in if validatedValue \<noteq> Some (value_text (quickPick s1))
         then update s1 (value_text (quickPick s1))
         else set_items (createItem s1 r (nonempty r) # its) s1)"

text \<open>
  The events the controller reacts to. The user changes the filter text: the picker holds
  the new text and \<^verbatim>\<open>update\<close> is called with it. The timeout that is set fires: its
  callback attaches a callback to \<^verbatim>\<open>validate\<close> and counts a busy update; on a promise that
  is already fulfilled the attached callback runs at once. A promise is fulfilled: the
  callbacks attached to it run in the order in which they were attached, and each ends
  its busy update.
\<close>

datatype event = ChangeValue string | TimerFires | Fulfilled nat

definition onDidChangeValue :: "string \<Rightarrow> filterbox \<Rightarrow> filterbox" where
  "onDidChangeValue v s = update (s\<lparr> quickPick := (quickPick s)\<lparr> value_text := v \<rparr> \<rparr>) v"

definition timer_fires :: "filterbox \<Rightarrow> filterbox" where
  "timer_fires s =
     (case timer s of
        None \<Rightarrow> s
      | Some (p, its) \<Rightarrow>
          let s1 = addBusyUpdate_begin (s\<lparr> timer := None \<rparr>)
          in if p < length (promises s1)
             then (if settled (promises s1 ! p)
                   then addBusyUpdate_end (validated s1 (fulfilment (promises s1 ! p)) its)
                   else s1\<lparr> promises := (promises s1)
                            [p := (promises s1 ! p)\<lparr> reactions := reactions (promises s1 ! p) @ [its] \<rparr>] \<rparr>)
             else s1)"

definition fulfilled :: "nat \<Rightarrow> filterbox \<Rightarrow> filterbox" where
  "fulfilled p s =
     (if p < length (promises s) \<and> \<not> settled (promises s ! p)
      then foldl (\<lambda>t its. addBusyUpdate_end (validated t (fulfilment (promises s ! p)) its))
             (s\<lparr> promises := (promises s)[p := (promises s ! p)\<lparr> settled := True, reactions := [] \<rparr>] \<rparr>)
             (reactions (promises s ! p))
      else s)"

fun react :: "filterbox \<Rightarrow> event \<Rightarrow> filterbox" where
  "react s (ChangeValue v) = onDidChangeValue v s"
| "react s TimerFires = timer_fires s"
| "react s (Fulfilled p) = fulfilled p s"

text \<open>
  The constructor: the prompter's, then \<^verbatim>\<open>addFilterBoxInput\<close>, which calls \<^verbatim>\<open>update\<close> with
  the picker's text.
\<close>

definition new_FilterBoxQuickPickPrompter :: "item \<Rightarrow> options \<Rightarrow> FilterBoxInput \<Rightarrow> filterbox" where
  "new_FilterBoxQuickPickPrompter module_item opts st =
     update (prompter.extend (new_QuickPickPrompter module_item opts)
               (filterbox.fields st None None None [])) ''''"

text \<open>
  \<^verbatim>\<open>isUserInput\<close> and the setter \<^verbatim>\<open>recentItem\<close> of the subclass. A description that is
  neither a string nor absent is outside the type of an item and reads as absent.
\<close>

definition isUserInput :: "jsval \<Rightarrow> js_error + bool" where
  "isUserInput picked =
     (if picked = JUndefined then Inr False
      else case js_get picked ''data'' of
             Inl e \<Rightarrow> Inl e
           | Inr d \<Rightarrow> Inr (d = CUSTOM_USER_INPUT))"

definition description_or_empty :: "jsval \<Rightarrow> string" where
  "description_or_empty response =
     (case js_get response ''description'' of Inr (JStr d) \<Rightarrow> d | _ \<Rightarrow> '''')"

definition FilterBox_set_recentItem :: "filterbox \<Rightarrow> jsval \<Rightarrow> filterbox completion" where
  "FilterBox_set_recentItem s response =
     (case isUserInput response of
        Inl e \<Rightarrow> Throws e s
      | Inr True \<Rightarrow>
          Normal (s\<lparr> quickPick := (quickPick s)\<lparr> value_text := description_or_empty response \<rparr> \<rparr>)
      | Inr False \<Rightarrow> set_recentItem s response)"

subsection \<open>Notions used in the statements\<close>

text \<open>
  A list is in blocks for \<open>P\<close> when the elements that satisfy \<open>P\<close> come first, followed by
  those that do not.
\<close>

definition blocks :: "('a \<Rightarrow> bool) \<Rightarrow> 'a list \<Rightarrow> bool" where
  "blocks P xs = (\<exists>as bs. xs = as @ bs \<and> (\<forall>a \<in> set as. P a) \<and> (\<forall>b \<in> set bs. \<not> P b))"

text \<open>
  The description of recovery in words, to compare \<open>recoverItemFromData\<close> with: a record
  answers to a recent value when its value is an object with the serialization of the
  recent value, or is not an object, is not a thunk and is the recent value.
\<close>

definition recovers :: "jsval \<Rightarrow> item \<Rightarrow> bool" where
  "recovers d i =
     (if typeof (data i) = TObject then JSON_stringify (data i) = JSON_stringify d
      else typeof (data i) \<noteq> TFunction \<and> data i = d)"

text \<open>Whether a value holds a BigInt, at any depth.\<close>

fun has_bigint :: "jsval \<Rightarrow> bool" where
  "has_bigint (JBigInt n) = True"
| "has_bigint (JArr xs) = list_ex has_bigint xs"
| "has_bigint (JObj kvs) = list_ex (\<lambda>(k, v). has_bigint v) kvs"
| "has_bigint v = False"

section \<open>Examples\<close>

text \<open>
  A concrete environment and concrete records, for evaluating the functions. \<open>prompter0\<close>
  and \<open>filterbox0\<close> are prompters with the default options, created before any load has
  failed: the module's \<^verbatim>\<open>DEFAULT_ERROR_ITEM\<close> is as its literal gives it.
\<close>

definition env0 :: env where
  "env0 = \<lparr> recentlyUsed_text = ''recently used'',
           WIZARD_BACK = JSymbol ''WIZARD_BACK'', WIZARD_EXIT = JSymbol ''WIZARD_EXIT'' \<rparr>"

definition plain_item :: "string \<Rightarrow> jsval \<Rightarrow> item" where
  "plain_item l d =
     \<lparr> label = l, description = None, detail = None, alwaysShow = None, data = d,
       invalidSelection = None, onClick = None, skipEstimate = None, recentlyUsed = None \<rparr>"

definition prompter0 :: prompter where
  "prompter0 =
     new_QuickPickPrompter (DEFAULT_ERROR_ITEM_literal env0) (DEFAULT_QUICKPICK_OPTIONS env0)"

text \<open>
  Settings for the free-text mode: the transform prefixes the text, the inverse removes
  the prefix, and the validator answers later, accepting only \<^verbatim>\<open>abc\<close>.
\<close>

definition settings0 :: FilterBoxInput where
  "settings0 =
     \<lparr> input_label = ''Enter'', transform = (\<lambda>v. JStr (''parsed:'' @ v)),
       inverse_fn = Some (\<lambda>r. case r of JStr t \<Rightarrow> drop 7 t | _ \<Rightarrow> ''''),
       validator = Some (\<lambda>v. Later (if v = ''abc'' then None else Some ''too long'')) \<rparr>"

definition filterbox0 :: filterbox where
  "filterbox0 =
     new_FilterBoxQuickPickPrompter (DEFAULT_ERROR_ITEM_literal env0)
       (DEFAULT_QUICKPICK_OPTIONS env0) settings0"

text \<open>Every thunk yields the same result, and every result is estimated at three steps.\<close>

definition call0 :: "nat \<Rightarrow> js_error + jsval" where
  "call0 f = Inr (JStr ''result'')"

definition estimator0 :: "jsval \<Rightarrow> int" where
  "estimator0 v = 3"

definition estimating0 :: estimating where
  "estimating0 = \<lparr> estimates = Map.empty, invoked = [] \<rparr>"

text \<open>A picker whose selection is one informational record with a callback.\<close>

definition picker0 :: picker where
  "picker0 =
     \<lparr> items = [], activeItems = [],
       selectedItems =
         [(plain_item ''info'' JUndefined)\<lparr> invalidSelection := Some True, onClick := Some 7 \<rparr>],
       value_text = '''' \<rparr>"

definition accepting0 :: accepting where
  "accepting0 = \<lparr> clicked = [], resolved = None \<rparr>"

text \<open>A recent value and a list with a record whose value serializes as it does.\<close>

definition recent0 :: jsval where
  "recent0 = JObj [(''x'', JNum 2), (''y'', JUndefined)]"

definition items0 :: "item list" where
  "items0 = [plain_item ''a'' (JNum 1), plain_item ''b'' (JObj [(''x'', JNum 2)])]"

section \<open>Properties\<close>

subsection \<open>The sort\<close>

lemma mset_js_insert: "mset (js_insert cmp x ys) = add_mset x (mset ys)"
  by (induction ys) auto

lemma mset_foldl_js_insert:
  "mset (foldl (\<lambda>acc x. js_insert cmp x acc) acc xs) = mset acc + mset xs"
  by (induction xs arbitrary: acc) (auto simp: mset_js_insert)

lemma mset_js_sort: "mset (js_sort cmp xs) = mset xs"
  by (simp add: js_sort_def mset_foldl_js_insert)

lemma length_js_sort: "length (js_sort cmp xs) = length xs"
  by (metis mset_js_sort size_mset)

lemma js_sort_single: "js_sort cmp [x] = [x]"
  by (simp add: js_sort_def)

text \<open>
  The reversed sorted prefix holds the elements outside \<open>P\<close> first. An element of \<open>P\<close>
  moves past all of them and stops at the first element of \<open>P\<close>; an element outside \<open>P\<close>
  stops at the latest there.
\<close>

lemma js_insert_blocks:
  assumes stop: "\<And>y. P y \<Longrightarrow> \<not> cmp y x > 0"
    and pass: "\<And>y. \<not> P y \<Longrightarrow> P x \<Longrightarrow> cmp y x > 0"
    and acc: "\<forall>b \<in> set bs. \<not> P b" "\<forall>a \<in> set as. P a"
  shows "\<exists>bs' as'. js_insert cmp x (bs @ as) = bs' @ as'
           \<and> (\<forall>b \<in> set bs'. \<not> P b) \<and> (\<forall>a \<in> set as'. P a)"
  using acc
proof (induction bs)
  case Nil
  have here: "js_insert cmp x as = x # as"
    using stop Nil by (cases as) auto
  show ?case
  proof (cases "P x")
    case True
    from here have "js_insert cmp x ([] @ as) = [] @ (x # as)" by simp
    with True Nil show ?thesis by (metis empty_iff list.set(1) set_ConsD)
  next
    case False
    from here have "js_insert cmp x ([] @ as) = [x] @ as" by simp
    with False Nil show ?thesis by (metis empty_iff empty_set set_ConsD)
  qed
next
  case (Cons b bs)
  then obtain bs' as' where IH: "js_insert cmp x (bs @ as) = bs' @ as'"
     "\<forall>b \<in> set bs'. \<not> P b" "\<forall>a \<in> set as'. P a" by auto
  show ?case
  proof (cases "cmp b x > 0")
    case True
    then have "js_insert cmp x ((b # bs) @ as) = (b # bs') @ as'" using IH by simp
    moreover have "\<forall>c \<in> set (b # bs'). \<not> P c" using IH Cons.prems by auto
    ultimately show ?thesis using IH(3) by blast
  next
    case False
    then have nx: "\<not> P x" using pass Cons.prems by auto
    from False have "js_insert cmp x ((b # bs) @ as) = (x # b # bs) @ as" by simp
    moreover have "\<forall>c \<in> set (x # b # bs). \<not> P c" using nx Cons.prems by auto
    ultimately show ?thesis using Cons.prems(2) by blast
  qed
qed

lemma foldl_js_insert_blocks:
  assumes stop: "\<And>x y. P y \<Longrightarrow> \<not> cmp y x > 0"
    and pass: "\<And>x y. \<not> P y \<Longrightarrow> P x \<Longrightarrow> cmp y x > 0"
  shows "(\<forall>b \<in> set bs. \<not> P b) \<Longrightarrow> (\<forall>a \<in> set as. P a) \<Longrightarrow>
     \<exists>bs' as'. foldl (\<lambda>acc x. js_insert cmp x acc) (bs @ as) xs = bs' @ as'
           \<and> (\<forall>b \<in> set bs'. \<not> P b) \<and> (\<forall>a \<in> set as'. P a)"
proof (induction xs arbitrary: bs as)
  case Nil
  then show ?case by auto
next
  case (Cons x xs)
  from js_insert_blocks[of P cmp x bs as] stop pass Cons.prems
  obtain bs1 as1 where 1: "js_insert cmp x (bs @ as) = bs1 @ as1"
    "\<forall>b \<in> set bs1. \<not> P b" "\<forall>a \<in> set as1. P a" by blast
  from Cons.IH[OF 1(2) 1(3)] 1(1) show ?case by simp
qed

lemma js_sort_blocks:
  assumes stop: "\<And>x y. P y \<Longrightarrow> \<not> cmp y x > 0"
    and pass: "\<And>x y. \<not> P y \<Longrightarrow> P x \<Longrightarrow> cmp y x > 0"
  shows "blocks P (js_sort cmp xs)"
proof -
  from foldl_js_insert_blocks[of P cmp "[]" "[]" xs] stop pass
  obtain bs' as' where 1: "foldl (\<lambda>acc x. js_insert cmp x acc) [] xs = bs' @ as'"
    "\<forall>b \<in> set bs'. \<not> P b" "\<forall>a \<in> set as'. P a" by auto
  then have "js_sort cmp xs = rev as' @ rev bs'" by (simp add: js_sort_def)
  with 1 show ?thesis unfolding blocks_def by (metis set_rev)
qed

lemma blocks_index:
  assumes "blocks P xs" "i < length xs" "j < length xs" "P (xs ! i)" "\<not> P (xs ! j)"
  shows "i < j"
proof -
  from assms(1) obtain as bs
    where x: "xs = as @ bs" "\<forall>a \<in> set as. P a" "\<forall>b \<in> set bs. \<not> P b"
    unfolding blocks_def by blast
  have "i < length as"
  proof (rule ccontr)
    assume "\<not> i < length as"
    then have "xs ! i = bs ! (i - length as)" "i - length as < length bs"
      using x(1) assms(2) by (auto simp: nth_append)
    then show False using x(3) assms(4) by (metis nth_mem)
  qed
  moreover have "\<not> j < length as"
  proof
    assume "j < length as"
    then have "xs ! j = as ! j" using x(1) by (simp add: nth_append)
    then show False using x(2) assms(5) \<open>j < length as\<close> by (metis nth_mem)
  qed
  ultimately show ?thesis by simp
qed

lemma sort_order_blocks:
  "blocks (\<lambda>i. truthy (recentlyUsed i)) (js_sort (sort_order opts) xs)"
  by (rule js_sort_blocks) (auto simp: sort_order_def)

lemma sort_order_compare: "compare o1 = compare o2 \<Longrightarrow> sort_order o1 = sort_order o2"
  by (auto simp: sort_order_def fun_eq_iff)

subsection \<open>The fields after an assignment\<close>

lemma items_set_activeItems [simp]: "items (quickPick (set_activeItems A s)) = items (quickPick s)"
  by (simp add: set_activeItems_def)

lemma items_set_items [simp]: "items (quickPick (set_items xs s)) = xs"
  by (simp add: set_items_def)

lemma activeItems_set_activeItems [simp]: "activeItems (quickPick (set_activeItems A s)) = A"
  by (simp add: set_activeItems_def)

lemma activeItems_set_items [simp]:
  "activeItems (quickPick (set_items xs s)) = activeItems (quickPick s)"
  by (simp add: set_items_def)

lemma flag_set_activeItems [simp]:
  "isShowingPlaceholder (set_activeItems A s) = isShowingPlaceholder s"
  by (simp add: set_activeItems_def)

lemma flag_set_items [simp]: "isShowingPlaceholder (set_items xs s) = isShowingPlaceholder s"
  by (simp add: set_items_def)

lemma options_set_activeItems [simp]: "options (set_activeItems A s) = options s"
  by (simp add: set_activeItems_def)

lemma options_set_items [simp]: "options (set_items xs s) = options s"
  by (simp add: set_items_def)

lemma pending_set_activeItems [simp]: "pendingUpdates (set_activeItems A s) = pendingUpdates s"
  by (simp add: set_activeItems_def)

lemma pending_set_items [simp]: "pendingUpdates (set_items xs s) = pendingUpdates s"
  by (simp add: set_items_def)

lemma recent_set_activeItems [simp]: "recentItem' (set_activeItems A s) = recentItem' s"
  by (simp add: set_activeItems_def)

lemma detail_applyDescriptionSuffix [simp]: "detail (applyDescriptionSuffix sfx i) = detail i"
  by (simp add: applyDescriptionSuffix_def Let_def)

lemma assign_resolved_fields [simp]:
  "items (quickPick (assign_resolved opt r s)) = items (quickPick s)"
  "activeItems (quickPick (assign_resolved opt r s)) = activeItems (quickPick s)"
  "isShowingPlaceholder (assign_resolved opt r s) = isShowingPlaceholder s"
  "pendingUpdates (assign_resolved opt r s) = pendingUpdates s"
  "compare (options (assign_resolved opt r s)) = compare (options s)"
  by (cases opt; simp)+

text \<open>The definitions that evaluate a load on a concrete prompter.\<close>

lemmas eval_defs = loadItems_def appendItems_def js_sort_def selectItems_def checkEmpty_def
  prompter0_def new_QuickPickPrompter_def DEFAULT_QUICKPICK_OPTIONS_def clearItems_def
  set_items_def set_activeItems_def addErrorItem_def handleError_def addBusyUpdate_begin_def
  addBusyUpdate_end_def default_detail_def DEFAULT_ERROR_ITEM_literal_def DEFAULT_NO_ITEMS_ITEM_def
  applyDescriptionSuffix_def truthy_def sort_order_def env0_def plain_item_def Let_def

subsection \<open>Selecting\<close>

text \<open>
  As long as every record handed to \<open>selectItems\<close> is defined, it returns, and it changes
  only the active records. \<open>appendItems\<close> hands it the records that were active.
\<close>

lemma labels_of_defined: "None \<notin> set xs \<Longrightarrow> \<exists>ls. labels_of xs = Inr ls"
proof (induction xs)
  case Nil
  then show ?case by simp
next
  case (Cons a xs)
  then obtain i where "a = Some i" by (cases a) auto
  with Cons show ?case by auto
qed

lemma selectItems_defined:
  assumes "None \<notin> set args"
  shows "\<exists>A. selectItems s args = Normal (set_activeItems A s)"
proof -
  from labels_of_defined[OF assms] obtain ls where "labels_of args = Inr ls" ..
  then show ?thesis by (auto simp: selectItems_def Let_def)
qed

lemma appendItems_defined:
  assumes "None \<notin> set (activeItems (quickPick s))"
  shows "\<exists>A. appendItems E s new =
           Normal (set_activeItems A
             (set_items (js_sort (sort_order (options s))
                (items (quickPick s) @ map (applyDescriptionSuffix (recentlyUsed_text E)) new)) s))"
proof -
  have "None \<notin> set (activeItems (quickPick s))" by (rule assms)
  then show ?thesis
    unfolding appendItems_def Let_def by (rule selectItems_defined)
qed

text \<open>
  C10: when \<open>selectItems\<close> is called and no given label is the label of a current record,
  the active records become the one-element list holding the first entry of the list of
  records, read without a test for emptiness: on the empty list the active records are
  the list holding \<^verbatim>\<open>undefined\<close>, not the empty list.
\<close>

theorem selectItems_no_match:
  assumes "labels_of args = Inr selected"
    and "\<forall>i \<in> set (items (quickPick s)). label i \<notin> set selected"
  shows "selectItems s args = Normal (set_activeItems [first_entry (items (quickPick s))] s)
    \<and> (items (quickPick s) = [] \<longrightarrow>
         activeItems (quickPick (state_of (selectItems s args))) = [None])"
proof -
  from assms(2) have "filter (\<lambda>i. label i \<in> set selected) (items (quickPick s)) = []"
    by (simp add: filter_empty_conv)
  with assms(1) have "selectItems s args =
      Normal (set_activeItems [first_entry (items (quickPick s))] s)"
    by (simp add: selectItems_def)
  then show ?thesis by simp
qed

theorem selectItems_no_match_witness:
  "selectItems prompter0 [Some (plain_item ''a'' JNull)] = Normal (set_activeItems [None] prompter0)
   \<and> activeItems (quickPick (state_of (selectItems prompter0 [Some (plain_item ''a'' JNull)]))) = [None]"
  using selectItems_no_match [of "[Some (plain_item ''a'' JNull)]" "[''a'']" prompter0]
  by (simp add: prompter0_def new_QuickPickPrompter_def plain_item_def)

subsection \<open>Clearing\<close>

text \<open>
  C6: \<^verbatim>\<open>clearItems\<close> is idempotent. For every state of the prompter, clearing twice in a
  row gives the state that clearing once gives, and in that state the visible list is
  empty and the placeholder flag is cleared.
\<close>

theorem clearItems_idempotent:
  "clearItems (clearItems s) = clearItems s
   \<and> items (quickPick (clearItems s)) = []
   \<and> isShowingPlaceholder (clearItems s) = False"
  by (simp add: clearItems_def set_items_def)

subsection \<open>Loading an array\<close>

lemma load_start:
  assumes "items (quickPick s) = []"
  shows "items (quickPick (if isShowingPlaceholder s then clearItems s else s)) = []"
    and "activeItems (quickPick (if isShowingPlaceholder s then clearItems s else s))
          = activeItems (quickPick s)"
    and "\<not> isShowingPlaceholder (if isShowingPlaceholder s then clearItems s else s)"
    and "options (if isShowingPlaceholder s then clearItems s else s) = options s"
  using assms by (auto simp: clearItems_def)

text \<open>
  C4, as amended: for every array of N records with N at least one, loaded into a prompter
  whose visible list is empty (and whose active records are all defined), \<open>loadItems\<close>
  returns; the visible list then holds exactly the N records, each as it was supplied but
  for the suffix that \<open>applyDescriptionSuffix\<close> puts on the description of a record
  flagged \<^verbatim>\<open>recentlyUsed\<close>; no placeholder is showing; and every record flagged
  \<^verbatim>\<open>recentlyUsed\<close> stands before every record that is not.
\<close>

theorem loadItems_array:
  assumes empty: "items (quickPick s) = []"
    and act: "None \<notin> set (activeItems (quickPick s))"
    and ne: "xs \<noteq> []"
  shows "\<exists>s'. loadItems E s (Array xs) = Normal s'
      \<and> mset (items (quickPick s')) = mset (map (applyDescriptionSuffix (recentlyUsed_text E)) xs)
      \<and> length (items (quickPick s')) = length xs
      \<and> \<not> isShowingPlaceholder s'
      \<and> (\<forall>i j. i < length xs \<and> j < length xs
            \<and> truthy (recentlyUsed (items (quickPick s') ! i))
            \<and> \<not> truthy (recentlyUsed (items (quickPick s') ! j)) \<longrightarrow> i < j)"
proof -
  define s0 where "s0 = (if isShowingPlaceholder s then clearItems s else s)"
  define ys where "ys = js_sort (sort_order (options s))
                          (map (applyDescriptionSuffix (recentlyUsed_text E)) xs)"
  have s0: "items (quickPick s0) = []" "activeItems (quickPick s0) = activeItems (quickPick s)"
    "\<not> isShowingPlaceholder s0" "options s0 = options s"
    unfolding s0_def using load_start[OF empty] by auto
  from appendItems_defined[of s0 E xs] act s0
  obtain A where app: "appendItems E s0 xs = Normal (set_activeItems A (set_items ys s0))"
    unfolding ys_def by auto
  have len: "length ys = length xs" by (simp add: ys_def length_js_sort)
  with ne have "ys \<noteq> []" by auto
  then have chk: "checkEmpty E (set_activeItems A (set_items ys s0)) b
                    = Normal (set_activeItems A (set_items ys s0))" for b
    by (simp add: checkEmpty_def)
  have load: "loadItems E s (Array xs) = Normal (set_activeItems A (set_items ys s0))"
    unfolding loadItems_def Let_def s0_def[symmetric] by (simp add: app chk)
  have ord: "blocks (\<lambda>i. truthy (recentlyUsed i)) ys"
    unfolding ys_def by (rule sort_order_blocks)
  have "\<forall>i j. i < length xs \<and> j < length xs \<and> truthy (recentlyUsed (ys ! i))
            \<and> \<not> truthy (recentlyUsed (ys ! j)) \<longrightarrow> i < j"
    using blocks_index[OF ord] len by auto
  moreover have "mset ys = mset (map (applyDescriptionSuffix (recentlyUsed_text E)) xs)"
    by (simp add: ys_def mset_js_sort)
  ultimately show ?thesis using load len s0(3) by simp
qed

theorem loadItems_array_witness:
  "\<exists>s'. loadItems env0 prompter0
           (Array [plain_item ''a'' JNull, (plain_item ''b'' JNull)\<lparr> recentlyUsed := Some True \<rparr>])
         = Normal s'
      \<and> mset (items (quickPick s')) =
          mset (map (applyDescriptionSuffix (recentlyUsed_text env0))
                 [plain_item ''a'' JNull, (plain_item ''b'' JNull)\<lparr> recentlyUsed := Some True \<rparr>])
      \<and> length (items (quickPick s')) =
          length [plain_item ''a'' JNull, (plain_item ''b'' JNull)\<lparr> recentlyUsed := Some True \<rparr>]
      \<and> \<not> isShowingPlaceholder s'
      \<and> (\<forall>i j. i < length [plain_item ''a'' JNull, (plain_item ''b'' JNull)\<lparr> recentlyUsed := Some True \<rparr>]
            \<and> j < length [plain_item ''a'' JNull, (plain_item ''b'' JNull)\<lparr> recentlyUsed := Some True \<rparr>]
            \<and> truthy (recentlyUsed (items (quickPick s') ! i))
            \<and> \<not> truthy (recentlyUsed (items (quickPick s') ! j)) \<longrightarrow> i < j)"
  by (rule loadItems_array) (simp_all add: prompter0_def new_QuickPickPrompter_def)

text \<open>
  C4 as it was stated includes the array of no records. Loaded into a new prompter
  with the default options, it leaves one record in the visible list, the placeholder,
  and the placeholder flag set.
\<close>

theorem loadItems_empty_array_counts_one:
  "items (quickPick (state_of (loadItems env0 prompter0 (Array [])))) = [DEFAULT_NO_ITEMS_ITEM env0]
   \<and> length (items (quickPick (state_of (loadItems env0 prompter0 (Array [])))))
       \<noteq> length ([] :: item list)
   \<and> isShowingPlaceholder (state_of (loadItems env0 prompter0 (Array [])))"
  by (simp add: eval_defs)

text \<open>
  C3: for the empty array, under the default \<^verbatim>\<open>noItemsFoundItem\<close>, loaded when the visible
  list is empty or a placeholder is showing and no update is pending (the condition under
  which \<open>checkEmpty\<close> inserts), \<open>loadItems\<close> returns and the visible list holds exactly one
  record, the placeholder, whose data is the BACK signal; it is the active record, and
  accepting it resolves the prompt with that record.
\<close>

theorem loadItems_empty_array:
  assumes cfg: "noItemsFoundItem (options s) = Some (Item (DEFAULT_NO_ITEMS_ITEM E))"
    and empty: "items (quickPick s) = [] \<or> isShowingPlaceholder s"
    and idle: "pendingUpdates s = 0"
    and act: "None \<notin> set (activeItems (quickPick s))"
  shows "\<exists>s'. loadItems E s (Array []) = Normal s'
      \<and> items (quickPick s') = [DEFAULT_NO_ITEMS_ITEM E]
      \<and> data (DEFAULT_NO_ITEMS_ITEM E) = WIZARD_BACK E
      \<and> isShowingPlaceholder s'
      \<and> activeItems (quickPick s') = [Some (DEFAULT_NO_ITEMS_ITEM E)]
      \<and> resolved (acceptItems ((quickPick s')\<lparr> selectedItems := [DEFAULT_NO_ITEMS_ITEM E] \<rparr>)
                    \<lparr> clicked = [], resolved = None \<rparr>) = Some [DEFAULT_NO_ITEMS_ITEM E]"
proof -
  define s0 where "s0 = (if isShowingPlaceholder s then clearItems s else s)"
  have s0: "items (quickPick s0) = []" "activeItems (quickPick s0) = activeItems (quickPick s)"
    "options s0 = options s" "pendingUpdates s0 = 0"
    unfolding s0_def using empty idle by (auto simp: clearItems_def set_items_def)
  from appendItems_defined[of s0 E "[]"] act s0
  obtain A where app: "appendItems E s0 [] = Normal (set_activeItems A (set_items [] s0))"
    by (auto simp: js_sort_def)
  define t where "t = set_activeItems A (set_items [] s0)"
  define s' where "s' = set_activeItems [Some (DEFAULT_NO_ITEMS_ITEM E)]
       (set_items [DEFAULT_NO_ITEMS_ITEM E] (t\<lparr> isShowingPlaceholder := True \<rparr>))"
  have t: "items (quickPick t) = []" "pendingUpdates t = 0"
    "noItemsFoundItem (options t) = Some (Item (DEFAULT_NO_ITEMS_ITEM E))"
    unfolding t_def using s0 cfg by simp_all
  have chk: "checkEmpty E t (pendingUpdates t > 0) = Normal s'"
    unfolding checkEmpty_def s'_def using t by (simp add: selectItems_def)
  have load: "loadItems E s (Array []) = Normal s'"
    unfolding loadItems_def Let_def s0_def[symmetric] using app chk by (simp add: t_def)
  have "items (quickPick s') = [DEFAULT_NO_ITEMS_ITEM E]"
    "isShowingPlaceholder s'" "activeItems (quickPick s') = [Some (DEFAULT_NO_ITEMS_ITEM E)]"
    unfolding s'_def by (simp_all add: set_items_def)
  moreover have "data (DEFAULT_NO_ITEMS_ITEM E) = WIZARD_BACK E"
    by (simp add: DEFAULT_NO_ITEMS_ITEM_def)
  moreover have
    "resolved (acceptItems ((quickPick s')\<lparr> selectedItems := [DEFAULT_NO_ITEMS_ITEM E] \<rparr>)
                 \<lparr> clicked = [], resolved = None \<rparr>) = Some [DEFAULT_NO_ITEMS_ITEM E]"
    by (simp add: acceptItems_def resolve_def DEFAULT_NO_ITEMS_ITEM_def truthy_def)
  ultimately show ?thesis using load by blast
qed

theorem loadItems_empty_array_witness:
  "\<exists>s'. loadItems env0 prompter0 (Array []) = Normal s'
      \<and> items (quickPick s') = [DEFAULT_NO_ITEMS_ITEM env0]
      \<and> data (DEFAULT_NO_ITEMS_ITEM env0) = WIZARD_BACK env0
      \<and> isShowingPlaceholder s'
      \<and> activeItems (quickPick s') = [Some (DEFAULT_NO_ITEMS_ITEM env0)]
      \<and> resolved (acceptItems ((quickPick s')\<lparr> selectedItems := [DEFAULT_NO_ITEMS_ITEM env0] \<rparr>)
                    \<lparr> clicked = [], resolved = None \<rparr>) = Some [DEFAULT_NO_ITEMS_ITEM env0]"
  by (rule loadItems_empty_array)
     (simp_all add: prompter0_def new_QuickPickPrompter_def DEFAULT_QUICKPICK_OPTIONS_def)

subsection \<open>Loading a promise that is rejected\<close>

text \<open>
  What the code does keep: for every promise of records that is rejected with an error
  \<open>e\<close>, in a state in which an error item is configured, the object it resolves to has no
  detail at that moment, and the active records are all defined, \<open>loadItems\<close> returns and
  does not throw; the visible list then holds the records it held before, but for a
  placeholder that was showing, and exactly one more record, the error record, whose
  detail is the message of \<open>e\<close>. On a list that was empty or showing a placeholder the
  error record is the whole list.
\<close>

theorem loadItems_rejected:
  assumes cfg: "errorItem (options s) = Some opt" "\<not> error_option_falsy opt"
    and nodetail: "detail (resolveErrorOption (DEFAULT_ERROR_ITEM s) opt e) = None"
    and act: "None \<notin> set (activeItems (quickPick s))"
  shows "let err = applyDescriptionSuffix (recentlyUsed_text E)
                     ((resolveErrorOption (DEFAULT_ERROR_ITEM s) opt e)\<lparr> detail := Some (message e) \<rparr>)
         in \<exists>s'. loadItems E s (Deferred (Inl e)) = Normal s'
            \<and> detail err = Some (message e)
            \<and> mset (items (quickPick s')) =
                add_mset err (mset (if isShowingPlaceholder s then [] else items (quickPick s)))
            \<and> (if isShowingPlaceholder s \<or> items (quickPick s) = []
                then items (quickPick s') = [err]
                else length (items (quickPick s')) = length (items (quickPick s)) + 1)
            \<and> isShowingPlaceholder s'
            \<and> pendingUpdates s' = pendingUpdates s"
proof -
  define s0 where "s0 = (if isShowingPlaceholder s then clearItems s else s)"
  define r where "r = (resolveErrorOption (DEFAULT_ERROR_ITEM s) opt e)\<lparr> detail := Some (message e) \<rparr>"
  define err where "err = applyDescriptionSuffix (recentlyUsed_text E) r"
  define s1 where "s1 = addBusyUpdate_begin s0"
  define s2 where "s2 = assign_resolved opt r (s1\<lparr> isShowingPlaceholder := True \<rparr>)"
  define ys where "ys = js_sort (sort_order (options s2)) (items (quickPick s0) @ [err])"
  have s0: "items (quickPick s0) = (if isShowingPlaceholder s then [] else items (quickPick s))"
    "activeItems (quickPick s0) = activeItems (quickPick s)"
    "options s0 = options s" "pendingUpdates s0 = pendingUpdates s"
    "DEFAULT_ERROR_ITEM s0 = DEFAULT_ERROR_ITEM s"
    unfolding s0_def by (auto simp: clearItems_def set_items_def)
  have s1: "items (quickPick s1) = items (quickPick s0)"
    "activeItems (quickPick s1) = activeItems (quickPick s)"
    "options s1 = options s" "pendingUpdates s1 = pendingUpdates s + 1"
    "DEFAULT_ERROR_ITEM s1 = DEFAULT_ERROR_ITEM s"
    unfolding s1_def using s0 by (simp_all add: addBusyUpdate_begin_def)
  have res: "default_detail e (resolveErrorOption (DEFAULT_ERROR_ITEM s1) opt e) = r"
    using nodetail s1 by (simp add: default_detail_def r_def)
  have s2: "items (quickPick s2) = items (quickPick s0)"
    "activeItems (quickPick s2) = activeItems (quickPick s)"
    "isShowingPlaceholder s2" "pendingUpdates s2 = pendingUpdates s + 1"
    unfolding s2_def using s1 by simp_all
  from appendItems_defined[of s2 E "[r]"] act s2
  obtain A where app: "appendItems E s2 [r] = Normal (set_activeItems A (set_items ys s2))"
    unfolding ys_def err_def by auto
  define t where "t = set_activeItems A (set_items ys s2)"
  have handle: "handleError E s1 e = Normal t"
    unfolding handleError_def addErrorItem_def using cfg s1 res app
    by (simp add: s2_def t_def)
  have len: "length ys = length (items (quickPick s0)) + 1"
    by (simp add: ys_def length_js_sort)
  then have "ys \<noteq> []" by auto
  then have chk: "checkEmpty E t b = Normal t" for b
    by (simp add: checkEmpty_def t_def)
  have load: "loadItems E s (Deferred (Inl e)) = Normal (addBusyUpdate_end t)"
    unfolding loadItems_def Let_def s0_def[symmetric] s1_def[symmetric]
    by (simp add: handle chk)
  have t: "items (quickPick (addBusyUpdate_end t)) = ys"
    "isShowingPlaceholder (addBusyUpdate_end t)"
    "pendingUpdates (addBusyUpdate_end t) = pendingUpdates s"
    unfolding t_def addBusyUpdate_end_def using s2 by simp_all
  have m: "mset ys = add_mset err (mset (if isShowingPlaceholder s then [] else items (quickPick s)))"
    unfolding ys_def using s0 by (simp add: mset_js_sort)
  have single: "isShowingPlaceholder s \<or> items (quickPick s) = [] \<Longrightarrow> ys = [err]"
    unfolding ys_def using s0 by (auto simp: js_sort_single)
  have len': "\<not> (isShowingPlaceholder s \<or> items (quickPick s) = []) \<Longrightarrow>
      length ys = length (items (quickPick s)) + 1"
    using len s0 by auto
  have d: "detail err = Some (message e)" by (simp add: err_def r_def)
  show ?thesis
    unfolding Let_def r_def[symmetric] err_def[symmetric]
    using load t m single len' d by auto
qed

theorem loadItems_rejected_witness:
  "let err = applyDescriptionSuffix (recentlyUsed_text env0)
               ((resolveErrorOption (DEFAULT_ERROR_ITEM prompter0) ErrDefault (Error ''boom''))
                  \<lparr> detail := Some (message (Error ''boom'')) \<rparr>)
   in \<exists>s'. loadItems env0 prompter0 (Deferred (Inl (Error ''boom''))) = Normal s'
      \<and> detail err = Some (message (Error ''boom''))
      \<and> mset (items (quickPick s')) =
          add_mset err (mset (if isShowingPlaceholder prompter0 then [] else items (quickPick prompter0)))
      \<and> (if isShowingPlaceholder prompter0 \<or> items (quickPick prompter0) = []
          then items (quickPick s') = [err]
          else length (items (quickPick s')) = length (items (quickPick prompter0)) + 1)
      \<and> isShowingPlaceholder s'
      \<and> pendingUpdates s' = pendingUpdates prompter0"
  by (rule loadItems_rejected)
     (simp_all add: prompter0_def new_QuickPickPrompter_def DEFAULT_QUICKPICK_OPTIONS_def
        DEFAULT_ERROR_ITEM_literal_def)

text \<open>
  The hypotheses of \<open>loadItems_rejected\<close> are about the state in which the load fails, and
  the default options do not keep them. The next theorem runs the code where they fail.
\<close>

text \<open>
  C1: the claim is that for every promise that is rejected with an error \<open>e\<close>, \<open>loadItems\<close>
  resolves and the error record shows the message of \<open>e\<close> when the configured error item
  sets no detail of its own. The code does not keep this in three runs, all under the
  default options, whose error item sets no detail. A first load is rejected with
  \<^verbatim>\<open>first\<close>: \<^verbatim>\<open>resolvedItem.detail ??= error.message\<close> assigns to the module's
  \<^verbatim>\<open>DEFAULT_ERROR_ITEM\<close> itself. A second load on the same prompter, rejected with
  \<^verbatim>\<open>second\<close>, then shows \<^verbatim>\<open>first\<close>; so does a load rejected with \<^verbatim>\<open>second\<close> on a prompter
  created after the first failure. And on a new prompter whose recent selection was
  matched while the list was empty, which leaves \<^verbatim>\<open>undefined\<close> among the active records
  (C10), a rejected load throws a \<^verbatim>\<open>TypeError\<close> from the error handler instead of
  resolving.
\<close>

theorem rejected_load_stale_or_throws:
  "items (quickPick (state_of (loadItems env0
      (state_of (loadItems env0 prompter0 (Deferred (Inl (Error ''first'')))))
      (Deferred (Inl (Error ''second'')))))) =
     [(DEFAULT_ERROR_ITEM_literal env0)\<lparr> detail := Some ''first'' \<rparr>]
   \<and> items (quickPick (state_of (loadItems env0
      (new_QuickPickPrompter
         (DEFAULT_ERROR_ITEM (state_of (loadItems env0 prompter0 (Deferred (Inl (Error ''first''))))))
         (DEFAULT_QUICKPICK_OPTIONS env0))
      (Deferred (Inl (Error ''second'')))))) =
     [(DEFAULT_ERROR_ITEM_literal env0)\<lparr> detail := Some ''first'' \<rparr>]
   \<and> detail (DEFAULT_ERROR_ITEM_literal env0) = None
   \<and> matchRecentItem prompter0 = Normal (set_activeItems [None] prompter0)
   \<and> thrown (loadItems env0 (state_of (matchRecentItem prompter0))
              (Deferred (Inl (Error ''boom''))))
       = Some (TypeError ''Cannot read properties of undefined'')"
  by (simp add: matchRecentItem_def eval_defs)

text \<open>
  An array loaded in such a state throws as well: \<open>appendItems\<close> hands the active
  records, \<^verbatim>\<open>undefined\<close> among them, back to \<open>selectItems\<close>, which throws on reading a
  label.
\<close>

lemma load_after_undefined_active_throws:
  "thrown (loadItems env0 (state_of (selectItems prompter0 [])) (Array [plain_item ''a'' JNull]))
     = Some (TypeError ''Cannot read properties of undefined'')"
  by (simp add: eval_defs)

subsection \<open>Accepting\<close>

text \<open>
  C8: on acceptance with a selection that is not empty, while the prompt is pending, the
  \<^verbatim>\<open>onClick\<close> callback of every selected record that has one is called, in order and
  whether or not a record is flagged invalid; the prompt is resolved (with the selection)
  if and only if no selected record has \<^verbatim>\<open>invalidSelection\<close> set; and when some selected
  record has, nothing but the log of calls has changed and the prompt is still pending.
  \<open>acceptItems\<close> reads the picker and assigns nothing in it.
\<close>

theorem acceptItems_fires_then_checks:
  assumes "selectedItems p \<noteq> []" and "resolved w = None"
  shows "clicked (acceptItems p w) = clicked w @ List.map_filter onClick (selectedItems p)
     \<and> (resolved (acceptItems p w) = Some (selectedItems p))
         = (\<not> list_ex (\<lambda>i. truthy (invalidSelection i)) (selectedItems p))
     \<and> (list_ex (\<lambda>i. truthy (invalidSelection i)) (selectedItems p) \<longrightarrow>
          acceptItems p w = w\<lparr> clicked := clicked w @ List.map_filter onClick (selectedItems p) \<rparr>
          \<and> resolved (acceptItems p w) = None)"
  using assms by (auto simp: acceptItems_def resolve_def Let_def)

theorem acceptItems_fires_then_checks_witness:
  "clicked (acceptItems picker0 accepting0) = [7] \<and> resolved (acceptItems picker0 accepting0) = None"
  using acceptItems_fires_then_checks [of picker0 accepting0]
  by (simp add: picker0_def accepting0_def plain_item_def truthy_def List.map_filter_def)

subsection \<open>Estimating\<close>

text \<open>
  C7, as amended: for every record whose value is a thunk, that is not flagged invalid and
  has no estimate in the cache, the estimator calls the thunk only when \<^verbatim>\<open>skipEstimate\<close>
  is set to false: the thunk's result, transformed, is then given to the estimator
  function and the estimate is cached (a rejected thunk leaves the cache as it was).
  When \<^verbatim>\<open>skipEstimate\<close> is unset the estimate is 0, that 0 is cached and the thunk is not
  called.
\<close>

theorem estimate_thunk:
  assumes "data i = JFun f" and "\<not> truthy (invalidSelection i)"
    and "estimates st (hashItem i) = None"
  shows "(skipEstimate i = None \<longrightarrow>
            estimate call estimator tr i st =
              (Inr 0, st\<lparr> estimates := (estimates st)(hashItem i \<mapsto> 0) \<rparr>))
       \<and> (skipEstimate i = Some False \<longrightarrow>
            estimate call estimator tr i st =
              (case call f of
                 Inl e \<Rightarrow> (Inl e, st\<lparr> invoked := invoked st @ [f] \<rparr>)
               | Inr d \<Rightarrow>
                   (Inr (estimator (transformed tr d)),
                    st\<lparr> invoked := invoked st @ [f],
                        estimates := (estimates st)(hashItem i \<mapsto> estimator (transformed tr d)) \<rparr>)))"
  using assms by (auto simp: estimate_def truthy_def Let_def split: sum.splits)

theorem estimate_thunk_witness:
  "estimate call0 estimator0 None ((plain_item ''t'' (JFun 0))\<lparr> skipEstimate := Some False \<rparr>) estimating0
     = (Inr 3, estimating0\<lparr> invoked := [0],
          estimates := (estimates estimating0)(''t::'' \<mapsto> 3) \<rparr>)
   \<and> estimate call0 estimator0 None (plain_item ''t'' (JFun 0)) estimating0
     = (Inr 0, estimating0\<lparr> estimates := (estimates estimating0)(''t::'' \<mapsto> 0) \<rparr>)"
  using estimate_thunk [of "(plain_item ''t'' (JFun 0))\<lparr> skipEstimate := Some False \<rparr>" 0
                           estimating0 call0 estimator0 None]
    estimate_thunk [of "plain_item ''t'' (JFun 0)" 0 estimating0 call0 estimator0 None]
  by (simp add: plain_item_def estimating0_def truthy_def hashItem_def call0_def estimator0_def
      transformed_def)

text \<open>
  C7 as it was stated fails on a thunk-valued record that leaves \<^verbatim>\<open>skipEstimate\<close>
  unset: the estimate is 0 and is cached, the thunk has not been called, and the
  estimator function would have given 3 for its result.
\<close>

theorem estimate_unset_thunk_not_invoked:
  "fst (estimate call0 estimator0 None (plain_item ''t'' (JFun 0)) estimating0) = Inr 0
   \<and> invoked (snd (estimate call0 estimator0 None (plain_item ''t'' (JFun 0)) estimating0)) = []
   \<and> estimates (snd (estimate call0 estimator0 None (plain_item ''t'' (JFun 0)) estimating0))
        (hashItem (plain_item ''t'' (JFun 0))) = Some 0
   \<and> skipEstimate (plain_item ''t'' (JFun 0)) = None
   \<and> call0 0 = Inr (JStr ''result'')
   \<and> estimator0 (transformed None (JStr ''result'')) = 3"
  by (simp add: estimate_def plain_item_def estimating0_def truthy_def hashItem_def estimator0_def
      call0_def)

subsection \<open>The recent selection in free-text mode\<close>

lemma value_text_selectItems:
  "value_text (quickPick (state_of (selectItems s args))) = value_text (quickPick s)"
  by (simp add: selectItems_def set_activeItems_def Let_def split: sum.splits)

lemma value_text_matchRecentItem:
  "value_text (quickPick (state_of (matchRecentItem s))) = value_text (quickPick s)"
proof -
  have 1: "value_text (quickPick (state_of (map_completion (\<lambda>t. t\<lparr> recentItem' := JUndefined \<rparr>) c)))
      = value_text (quickPick (state_of c))" for c :: "'a prompter_scheme completion"
    by (cases c) simp_all
  show ?thesis
    by (simp add: matchRecentItem_def 1 value_text_selectItems split: sum.splits option.splits)
qed

text \<open>
  C9, as amended: in free-text mode, setting the recent selection puts text into the
  filter box only when the selection supplied is the synthetic free-text record itself
  (its data is \<^verbatim>\<open>CUSTOM_USER_INPUT\<close>): the text is then that record's description. Every
  other selection, a result of the transform among them, goes to the recency matcher of
  the prompter and leaves the filter box as it was, whatever inverse is configured.
\<close>

theorem FilterBox_recentItem_value_text:
  "value_text (quickPick (state_of (FilterBox_set_recentItem s response))) =
     (if isUserInput response = Inr True then description_or_empty response
      else value_text (quickPick s))"
  by (auto simp: FilterBox_set_recentItem_def set_recentItem_def value_text_matchRecentItem
      split: sum.splits bool.splits)

text \<open>
  C9 as it was stated fails with an inverse configured: the text \<^verbatim>\<open>abc\<close> is
  transformed, the result is supplied back as the recent selection, the inverse would
  give \<^verbatim>\<open>abc\<close> for it, and the filter box stays empty.
\<close>

theorem inverse_not_applied:
  "value_text (quickPick (state_of
      (FilterBox_set_recentItem filterbox0 (transform settings0 ''abc'')))) = ''''
   \<and> inverse_fn (settings filterbox0) = inverse_fn settings0
   \<and> the (inverse_fn settings0) (transform settings0 ''abc'') = ''abc''"
  by (simp add: filterbox0_def settings0_def new_FilterBoxQuickPickPrompter_def update_def
      FilterBox_set_recentItem_def isUserInput_def CUSTOM_USER_INPUT_def set_recentItem_def
      matchRecentItem_def prompter.defs filterbox.defs eval_defs)

subsection \<open>Recency matching\<close>

text \<open>\<^verbatim>\<open>JSON.stringify\<close> throws only on a value that holds a BigInt.\<close>

lemma first_throw_returns:
  "(\<forall>x \<in> set xs. \<exists>y. f x = Inr y) \<Longrightarrow> \<exists>ys. first_throw (map f xs) = Inr ys"
proof (induction xs)
  case Nil
  then show ?case by simp
next
  case (Cons x xs)
  then obtain y ys where "f x = Inr y" "first_throw (map f xs) = Inr ys" by auto
  then show ?case by simp
qed

lemma JSON_stringify_returns: "\<not> has_bigint v \<Longrightarrow> \<exists>t. JSON_stringify v = Inr t"
proof (induction v)
  case (JArr xs)
  then have "\<forall>x \<in> set xs. \<exists>y. JSON_stringify x = Inr y"
    by (auto simp: list_ex_iff)
  from first_throw_returns[OF this] show ?case by auto
next
  case (JObj kvs)
  have "\<forall>p \<in> set kvs. \<exists>y. (\<lambda>(k, v). case JSON_stringify v of
                                 Inl e \<Rightarrow> Inl e | Inr p \<Rightarrow> Inr (k, p)) p = Inr y"
  proof
    fix p assume p: "p \<in> set kvs"
    obtain k v where kv: "p = (k, v)" by (cases p)
    with p JObj.prems have "\<not> has_bigint v" by (auto simp: list_ex_iff)
    moreover from p kv have "v \<in> Basic_BNFs.snds p" by simp
    ultimately have "\<exists>t. JSON_stringify v = Inr t" using JObj.IH p by blast
    then show "\<exists>y. (\<lambda>(k, v). case JSON_stringify v of
                                 Inl e \<Rightarrow> Inl e | Inr p \<Rightarrow> Inr (k, p)) p = Inr y"
      using kv by auto
  qed
  from first_throw_returns[OF this] show ?case by auto
qed simp_all

lemma find_throw_total: "find_throw (\<lambda>x. Inr (P x)) xs = Inr (find P xs)"
  by (induction xs) auto

lemma find_throw_cong: "(\<And>x. x \<in> set xs \<Longrightarrow> f x = g x) \<Longrightarrow> find_throw f xs = find_throw g xs"
  by (induction xs) (auto split: sum.splits)

lemma recoverItemFromData_find:
  assumes ser: "JSON_stringify d = Inr t"
    and its: "\<forall>i \<in> set xs. typeof (data i) = TObject \<longrightarrow> (\<exists>u. JSON_stringify (data i) = Inr u)"
  shows "recoverItemFromData d xs = Inr (find (recovers d) xs)"
proof -
  have "find_throw (\<lambda>i. if typeof (data i) = TObject
                          then (case JSON_stringify (data i) of
                                  Inl e \<Rightarrow> Inl e | Inr u \<Rightarrow> Inr (t = u))
                          else Inr (if typeof (data i) = TFunction then False else d = data i)) xs
        = find_throw (\<lambda>i. Inr (recovers d i)) xs"
  proof (rule find_throw_cong)
    fix i assume "i \<in> set xs"
    with its have "typeof (data i) = TObject \<Longrightarrow> \<exists>u. JSON_stringify (data i) = Inr u" by blast
    then show "(if typeof (data i) = TObject
                then (case JSON_stringify (data i) of Inl e \<Rightarrow> Inl e | Inr u \<Rightarrow> Inr (t = u))
                else Inr (if typeof (data i) = TFunction then False else d = data i))
               = Inr (recovers d i)"
      using ser by (auto simp: recovers_def)
  qed
  then show ?thesis
    by (simp add: recoverItemFromData_def ser find_throw_total)
qed

lemma find_label_mate:
  assumes "m \<in> set xs"
  shows "\<exists>m'. find (\<lambda>i. label i = label m) xs = Some m' \<and> label m' = label m"
proof (cases "find (\<lambda>i. label i = label m) xs")
  case None
  with assms show ?thesis by (auto simp: find_None_iff)
next
  case (Some m')
  then show ?thesis by (auto simp: find_Some_iff)
qed

lemma filter_label_distinct:
  "m \<in> set xs \<Longrightarrow> distinct (map label xs) \<Longrightarrow> filter (\<lambda>i. label i = label m) xs = [m]"
proof (induction xs)
  case Nil
  then show ?case by simp
next
  case (Cons x xs)
  show ?case
  proof (cases "x = m")
    case True
    with Cons.prems(2) have "\<forall>i \<in> set xs. label i \<noteq> label m" by (auto simp: image_iff)
    then have "filter (\<lambda>i. label i = label m) xs = []" by (simp add: filter_empty_conv)
    with True show ?thesis by simp
  next
    case False
    with Cons.prems have m: "m \<in> set xs" by simp
    with Cons.prems(2) have "label x \<noteq> label m" by (auto simp: image_iff)
    with Cons.IH m Cons.prems(2) show ?thesis by simp
  qed
qed

lemma selectItems_one:
  assumes "m' \<in> set (items (quickPick s))"
  shows "selectItems s [Some m'] =
     Normal (set_activeItems (map Some (filter (\<lambda>i. label i = label m') (items (quickPick s)))) s)"
proof -
  from assms have "filter (\<lambda>i. label i = label m') (items (quickPick s)) \<noteq> []"
    by (auto simp: filter_empty_conv)
  then show ?thesis by (simp add: selectItems_def)
qed

text \<open>
  C5, as amended: recency matching with a recent value that is given, for which the test
  for an option record returns false (on \<^verbatim>\<open>null\<close> the test throws), and for which, as for
  the object-valued records of the list, serialization returns. \<open>recoverItemFromData\<close> then returns the first record of the list
  that answers to the recent value: its value is an object with the same serialization,
  or is not an object, is not a thunk and is the recent value; a thunk-valued record is
  never the one returned. The setter returns without throwing. If a record is recovered,
  the active records become all the records of the list that carry its label (that
  record alone when the labels of the list are distinct) and the recent value is
  forgotten. If none is recovered, the recent value is kept and the active records stay
  as they were, unless there were none: then they become the one-element list holding
  the first entry of the list.
\<close>

theorem recency_by_value:
  assumes given: "r \<noteq> JUndefined"
    and plain: "isDataQuickPickItem r = Inr False"
    and ser: "JSON_stringify r = Inr t"
    and its: "\<forall>i \<in> set (items (quickPick s)).
                typeof (data i) = TObject \<longrightarrow> (\<exists>u. JSON_stringify (data i) = Inr u)"
  shows "recoverItemFromData r (items (quickPick s)) = Inr (find (recovers r) (items (quickPick s)))
    \<and> set_recentItem s r = Normal
        (case find (recovers r) (items (quickPick s)) of
           Some m \<Rightarrow>
             set_activeItems (map Some (filter (\<lambda>i. label i = label m) (items (quickPick s))))
               (s\<lparr> recentItem' := JUndefined \<rparr>)
         | None \<Rightarrow>
             if activeItems (quickPick s) = []
             then set_activeItems [first_entry (items (quickPick s))] (s\<lparr> recentItem' := r \<rparr>)
             else s\<lparr> recentItem' := r \<rparr>)
    \<and> (\<forall>m. find (recovers r) (items (quickPick s)) = Some m \<longrightarrow>
          typeof (data m) \<noteq> TFunction
          \<and> (distinct (map label (items (quickPick s))) \<longrightarrow>
               filter (\<lambda>i. label i = label m) (items (quickPick s)) = [m]))"
proof -
  define xs where "xs = items (quickPick s)"
  define s1 where "s1 = s\<lparr> recentItem' := r \<rparr>"
  have s1: "items (quickPick s1) = xs" "recentItem' s1 = r"
    "activeItems (quickPick s1) = activeItems (quickPick s)"
    by (simp_all add: s1_def xs_def)
  have rec: "recoverItemFromData r xs = Inr (find (recovers r) xs)"
    using recoverItemFromData_find[OF ser] its unfolding xs_def by blast
  have isr: "isRecentItem s1 i =
      Inr (case find (recovers r) xs of None \<Rightarrow> False | Some m \<Rightarrow> label i = label m)" for i
    using given plain rec s1 by (simp add: isRecentItem_def split: option.splits)
  have ft: "find_throw (isRecentItem s1) xs =
      Inr (find (\<lambda>i. case find (recovers r) xs of None \<Rightarrow> False | Some m \<Rightarrow> label i = label m) xs)"
  proof -
    have "isRecentItem s1 =
        (\<lambda>i. Inr (case find (recovers r) xs of None \<Rightarrow> False | Some m \<Rightarrow> label i = label m))"
      by (rule ext) (rule isr)
    then show ?thesis by (simp add: find_throw_total)
  qed
  have thunk: "find (recovers r) xs = Some m \<Longrightarrow> typeof (data m) \<noteq> TFunction" for m
    by (auto simp: find_Some_iff recovers_def split: if_splits)
  have uniq: "find (recovers r) xs = Some m \<Longrightarrow> distinct (map label xs) \<Longrightarrow>
      filter (\<lambda>i. label i = label m) xs = [m]" for m
    using filter_label_distinct[of m xs] by (auto simp: find_Some_iff)
  have match: "matchRecentItem s1 = Normal
        (case find (recovers r) xs of
           Some m \<Rightarrow>
             set_activeItems (map Some (filter (\<lambda>i. label i = label m) xs))
               (s\<lparr> recentItem' := JUndefined \<rparr>)
         | None \<Rightarrow>
             if activeItems (quickPick s) = []
             then set_activeItems [first_entry xs] (s\<lparr> recentItem' := r \<rparr>)
             else s\<lparr> recentItem' := r \<rparr>)"
  proof (cases "find (recovers r) xs")
    case None
    have "find (\<lambda>i. False) xs = None" by (simp add: find_None_iff)
    then have "find_throw (isRecentItem s1) xs = Inr None"
      unfolding ft None by simp
    then show ?thesis
      using None s1 by (simp add: matchRecentItem_def selectItems_def s1_def)
  next
    case (Some m)
    then have "m \<in> set xs" by (auto simp: find_Some_iff)
    from find_label_mate[OF this] obtain m'
      where m': "find (\<lambda>i. label i = label m) xs = Some m'" "label m' = label m" by blast
    then have in': "m' \<in> set xs" by (auto simp: find_Some_iff)
    have "find_throw (isRecentItem s1) xs = Inr (Some m')"
      using ft Some m' by simp
    moreover have "selectItems s1 [Some m'] =
        Normal (set_activeItems (map Some (filter (\<lambda>i. label i = label m) xs)) s1)"
      using selectItems_one[of m' s1] in' s1 m' by simp
    ultimately show ?thesis
      using Some s1 by (simp add: matchRecentItem_def s1_def set_activeItems_def)
  qed
  show ?thesis
    using rec match thunk uniq
    unfolding set_recentItem_def s1_def[symmetric] xs_def[symmetric] by blast
qed

theorem recency_by_value_witness:
  "recoverItemFromData recent0 items0 = Inr (Some (plain_item ''b'' (JObj [(''x'', JNum 2)])))
   \<and> set_recentItem (set_items items0 prompter0) recent0 =
       Normal (set_activeItems [Some (plain_item ''b'' (JObj [(''x'', JNum 2)]))]
                 (set_items items0 prompter0))"
proof -
  have h1: "recent0 \<noteq> JUndefined" by (simp add: recent0_def)
  have h2: "isDataQuickPickItem recent0 = Inr False"
    by (simp add: isDataQuickPickItem_def recent0_def)
  have h3: "JSON_stringify recent0 = Inr (Some (''{'' @ QuoteJSONString ''x'' @ '':2}''))"
    by (simp add: recent0_def show_int_def)
  have h4: "\<forall>i \<in> set (items (quickPick (set_items items0 prompter0))).
                typeof (data i) = TObject \<longrightarrow> (\<exists>u. JSON_stringify (data i) = Inr u)"
    by (simp add: items0_def plain_item_def)
  have f: "find (recovers recent0) items0 = Some (plain_item ''b'' (JObj [(''x'', JNum 2)]))"
    by (simp add: items0_def recent0_def recovers_def plain_item_def show_int_def)
  from recency_by_value[OF h1 h2 h3 h4] f show ?thesis
    by (simp add: items0_def plain_item_def set_activeItems_def set_items_def prompter0_def
        new_QuickPickPrompter_def)
qed

text \<open>
  C5 as it was stated fails twice. With two records of one label, the recent value
  2 answers to the second record only, and both records end up active. And a recent
  value that is a BigInt makes the setter throw.
\<close>

theorem recency_label_mates:
  "activeItems (quickPick (state_of (set_recentItem
       (set_items [plain_item ''a'' (JNum 1), plain_item ''a'' (JNum 2)] prompter0) (JNum 2))))
     = [Some (plain_item ''a'' (JNum 1)), Some (plain_item ''a'' (JNum 2))]
   \<and> thrown (set_recentItem (set_items [plain_item ''a'' (JNum 1)] prompter0) (JBigInt 2))
     = Some (TypeError ''Do not know how to serialize a BigInt'')"
  by (simp add: set_recentItem_def matchRecentItem_def isRecentItem_def isDataQuickPickItem_def
      recoverItemFromData_def show_int_def eval_defs)

subsection \<open>Validation in free-text mode\<close>

text \<open>
  C2: the claim is that a result computed for an earlier text is never applied to the
  synthetic record. The code applies one in this run: the text becomes \<^verbatim>\<open>abc\<close> and the
  validator is asked; the timeout fires and attaches a callback to the promise; the text
  becomes \<^verbatim>\<open>abcd\<close>, which reuses the pending promise; the second timeout fires and
  attaches a second callback; the promise is fulfilled with the result for \<^verbatim>\<open>abc\<close>
  (valid). The first callback finds the result stale and calls \<^verbatim>\<open>update\<close>, which sets the
  pending value to \<^verbatim>\<open>abcd\<close>; the second callback then finds the pending value equal to
  the text and applies the result for \<^verbatim>\<open>abc\<close>: the record for \<^verbatim>\<open>abcd\<close> is shown valid,
  with no detail, although the validator rejects \<^verbatim>\<open>abcd\<close>.
\<close>

theorem stale_validation_displayed:
  "items (quickPick (foldl react filterbox0
      [ChangeValue ''abc'', TimerFires, ChangeValue ''abcd'', TimerFires, Fulfilled 0]))
     = [\<lparr> label = ''Enter'', description = Some ''abcd'', detail = Some '''',
          alwaysShow = Some True, data = CUSTOM_USER_INPUT, invalidSelection = Some False,
          onClick = None, skipEstimate = None, recentlyUsed = None \<rparr>]
   \<and> the (validator settings0) ''abc'' = Later None
   \<and> the (validator settings0) ''abcd'' = Later (Some ''too long'')"
  by (simp add: filterbox0_def settings0_def new_FilterBoxQuickPickPrompter_def update_def
      onDidChangeValue_def timer_fires_def fulfilled_def validated_def await_validation_def
      createItem_def nonempty_def CUSTOM_USER_INPUT_def prompter.defs filterbox.defs eval_defs)

text \<open>
  When the second change comes before the first timeout has fired, a single callback is
  attached: the result for \<^verbatim>\<open>abc\<close> is discarded, the record stays in the interim state
  and the validation asked for \<^verbatim>\<open>abcd\<close> is the one applied.
\<close>

lemma stale_validation_discarded_when_debounced:
  "items (quickPick (foldl react filterbox0
      [ChangeValue ''abc'', ChangeValue ''abcd'', TimerFires, Fulfilled 0]))
     = [\<lparr> label = ''Enter'', description = Some ''abcd'', detail = Some ''Checking...'',
          alwaysShow = Some True, data = CUSTOM_USER_INPUT, invalidSelection = Some True,
          onClick = None, skipEstimate = None, recentlyUsed = None \<rparr>]
   \<and> items (quickPick (foldl react filterbox0
      [ChangeValue ''abc'', ChangeValue ''abcd'', TimerFires, Fulfilled 0, TimerFires, Fulfilled 1]))
     = [\<lparr> label = ''Enter'', description = Some ''abcd'', detail = Some ''too long'',
          alwaysShow = Some True, data = CUSTOM_USER_INPUT, invalidSelection = Some True,
          onClick = None, skipEstimate = None, recentlyUsed = None \<rparr>]"
  by (simp add: filterbox0_def settings0_def new_FilterBoxQuickPickPrompter_def update_def
      onDidChangeValue_def timer_fires_def fulfilled_def validated_def await_validation_def
      createItem_def nonempty_def CUSTOM_USER_INPUT_def prompter.defs filterbox.defs eval_defs)

end
